theory Spec2Isabelle
  imports Complex_Main
begin

section \<open>Python values\<close>

text \<open>
  A Python \<^verbatim>\<open>str\<close> is a sequence of Unicode code points; the program's literals are
  Chinese, so a string is modelled as the list of its code points. \<open>ascii\<close> embeds an
  ASCII literal. Floats are modelled as reals.
\<close>

type_synonym pystr = "nat list"

definition ascii :: "string \<Rightarrow> pystr" where
  "ascii s = map of_char s"

fun startswith :: "pystr \<Rightarrow> pystr \<Rightarrow> bool" where
  "startswith text [] = True"
| "startswith [] (w # ws) = False"
| "startswith (c # cs) (w # ws) = (c = w \<and> startswith cs ws)"

text \<open>\<open>str_in w text\<close> is Python's \<^verbatim>\<open>w in text\<close> on strings: \<open>w\<close> occurs as a substring.\<close>

fun str_in :: "pystr \<Rightarrow> pystr \<Rightarrow> bool" where
  "str_in w [] = (w = [])"
| "str_in w (c # cs) = (startswith (c # cs) w \<or> str_in w cs)"

text \<open>\<open>join sep xs\<close> is \<^verbatim>\<open>sep.join(xs)\<close>.\<close>

fun join :: "pystr \<Rightarrow> pystr list \<Rightarrow> pystr" where
  "join sep [] = []"
| "join sep [x] = x"
| "join sep (x # y # ys) = x @ sep @ join sep (y # ys)"

datatype py_error = ValueError | KeyError | TypeError | IndexError | ZeroDivisionError

text \<open>\<open>random.choice(xs)\<close> with the random draw \<open>r\<close> made explicit; it raises on an empty list.\<close>

definition random_choice :: "nat \<Rightarrow> 'a list \<Rightarrow> py_error + 'a" where
  "random_choice r xs = (if xs = [] then Inl IndexError else Inr (xs ! (r mod length xs)))"

text \<open>
  \<open>max_item\<close> is \<^verbatim>\<open>max(items, key=...)\<close> on a non-empty sequence, the key already
  paired with the item: Python keeps the first maximal element.
\<close>

fun max_item :: "'a \<times> real \<Rightarrow> ('a \<times> real) list \<Rightarrow> 'a \<times> real" where
  "max_item best [] = best"
| "max_item best (x # xs) = max_item (if snd best < snd x then x else best) xs"


section \<open>config/vocabulary.py\<close>

definition OBJECTS :: "pystr list" where
  "OBJECTS =
      [[0x82F9, 0x679C],
       [0x4E66, 0x672C],
       [0x6905, 0x5B50],
       [0x6C34, 0x676F],
       [0x624B, 0x673A],
       [0x7535, 0x8111],
       [0x773C, 0x955C],
       [0x94A5, 0x5319],
       [0x8863, 0x670D],
       [0x978B, 0x5B50]]"

definition QUESTIONS :: "pystr list" where
  "QUESTIONS =
      [[0x662F, 0x5417],
       [0x771F, 0x7684, 0x5417],
       [0x4EC0, 0x4E48],
       [0x4E3A, 0x4EC0, 0x4E48],
       [0x600E, 0x4E48, 0x6837],
       [0x5728, 0x54EA, 0x91CC],
       [0x8C01],
       [0x591A, 0x5C11],
       [0x53EF, 0x4EE5, 0x5417],
       [0x597D, 0x5417]]"

definition GREETINGS :: "pystr list" where
  "GREETINGS =
      [[0x4F60, 0x597D],
       [0x65E9, 0x4E0A, 0x597D],
       [0x4E0B, 0x5348, 0x597D],
       [0x665A, 0x4E0A, 0x597D],
       [0x518D, 0x89C1]]"

definition ATTITUDES :: "pystr list" where
  "ATTITUDES =
      [[0x597D, 0x7684],
       [0x4E0D, 0x597D],
       [0x559C, 0x6B22],
       [0x4E0D, 0x559C, 0x6B22],
       [0x53EF, 0x4EE5],
       [0x4E0D, 0x53EF, 0x4EE5],
       [0x540C, 0x610F],
       [0x4E0D, 0x540C, 0x610F],
       [0x660E, 0x767D],
       [0x4E0D, 0x660E, 0x767D]]"

definition ADJECTIVES :: "pystr list" where
  "ADJECTIVES =
      [[0x5927],
       [0x5C0F],
       [0x9AD8],
       [0x4F4E],
       [0x5FEB],
       [0x6162],
       [0x70ED],
       [0x51B7],
       [0x597D],
       [0x574F],
       [0x591A],
       [0x5C11],
       [0x8FDC],
       [0x8FD1],
       [0x65B0]]"

definition ALL_VOCABULARY :: "pystr list" where
  "ALL_VOCABULARY = remdups (OBJECTS @ QUESTIONS @ GREETINGS @ ATTITUDES @ ADJECTIVES)"

definition is_valid_word :: "pystr \<Rightarrow> bool" where
  "is_valid_word word = (word \<in> set ALL_VOCABULARY)"


section \<open>config/commands.py\<close>

datatype CommandType = COME | TURN | LEFT | RIGHT | RUN | STOP | FOLLOW | BACK | FORWARD | DANCE

definition all_CommandType :: "CommandType list" where
  "all_CommandType = [COME, TURN, LEFT, RIGHT, RUN, STOP, FOLLOW, BACK, FORWARD, DANCE]"

fun command_value :: "CommandType \<Rightarrow> pystr" where
  "command_value COME = [0x8FC7, 0x6765]"
| "command_value TURN = [0x8F6C, 0x8EAB]"
| "command_value LEFT = [0x5728, 0x4F60, 0x5DE6, 0x8FB9]"
| "command_value RIGHT = [0x5728, 0x4F60, 0x53F3, 0x8FB9]"
| "command_value RUN = [0x5FEB, 0x8DD1]"
| "command_value STOP = [0x505C, 0x4E0B]"
| "command_value FOLLOW = [0x8DDF, 0x7740, 0x6211]"
| "command_value BACK = [0x540E, 0x9000]"
| "command_value FORWARD = [0x5411, 0x524D]"
| "command_value DANCE = [0x8DF3, 0x821E]"

text \<open>\<open>CommandType(s)\<close>: the member whose value is \<open>s\<close>, or \<open>ValueError\<close>.\<close>

definition CommandType_of :: "pystr \<Rightarrow> py_error + CommandType" where
  "CommandType_of s =
     (case find (\<lambda>c. command_value c = s) all_CommandType of
        None \<Rightarrow> Inl ValueError
      | Some c \<Rightarrow> Inr c)"

record command_params =
  cp_action :: string
  cp_safety_check :: bool
  cp_keywords :: "pystr list"
  cp_response_templates :: "pystr list"

fun COMMAND_PARAMS :: "CommandType \<Rightarrow> command_params" where
  "COMMAND_PARAMS COME = \<lparr>
     cp_action = ''move_to_target'', cp_safety_check = True,
     cp_keywords =
       [[0x8FC7, 0x6765],
        [0x6765, 0x8FD9, 0x91CC],
        [0x5230, 0x8FD9, 0x513F]],
     cp_response_templates =
       [[0x597D, 0x7684, 0x2C, 0x6211, 0x8FD9, 0x5C31, 0x8FC7, 0x6765],
        [0x9A6C, 0x4E0A, 0x5C31, 0x5230],
        [0x6211, 0x6765, 0x4E86]]\<rparr>"
| "COMMAND_PARAMS TURN = \<lparr>
     cp_action = ''rotate'', cp_safety_check = False,
     cp_keywords =
       [[0x8F6C, 0x8EAB],
        [0x8F6C, 0x8FC7, 0x53BB],
        [0x8F6C, 0x8FC7, 0x6765]],
     cp_response_templates =
       [[0x597D, 0x7684, 0x2C, 0x6211, 0x8F6C, 0x8EAB, 0x4E86],
        [0x8F6C, 0x8FC7, 0x53BB, 0x4E86],
        [0x5DF2, 0x7ECF, 0x8F6C, 0x597D, 0x4E86]]\<rparr>"
| "COMMAND_PARAMS LEFT = \<lparr>
     cp_action = ''move_left'', cp_safety_check = True,
     cp_keywords =
       [[0x5DE6, 0x8FB9],
        [0x5411, 0x5DE6],
        [0x5DE6, 0x9762]],
     cp_response_templates =
       [[0x597D, 0x7684, 0x2C, 0x5411, 0x5DE6, 0x79FB, 0x52A8],
        [0x5F80, 0x5DE6, 0x8FB9, 0x8D70],
        [0x5411, 0x5DE6, 0x8FB9, 0x53BB]]\<rparr>"
| "COMMAND_PARAMS RIGHT = \<lparr>
     cp_action = ''move_right'', cp_safety_check = True,
     cp_keywords =
       [[0x53F3, 0x8FB9],
        [0x5411, 0x53F3],
        [0x53F3, 0x9762]],
     cp_response_templates =
       [[0x597D, 0x7684, 0x2C, 0x5411, 0x53F3, 0x79FB, 0x52A8],
        [0x5F80, 0x53F3, 0x8FB9, 0x8D70],
        [0x5411, 0x53F3, 0x8FB9, 0x53BB]]\<rparr>"
| "COMMAND_PARAMS RUN = \<lparr>
     cp_action = ''run'', cp_safety_check = True,
     cp_keywords =
       [[0x5FEB, 0x8DD1],
        [0x8DD1, 0x8D77, 0x6765],
        [0x52A0, 0x901F]],
     cp_response_templates =
       [[0x597D, 0x7684, 0x2C, 0x6211, 0x5F00, 0x59CB, 0x8DD1],
        [0x6211, 0x8DD1, 0x8D77, 0x6765, 0x4E86],
        [0x52A0, 0x901F, 0x4E2D]]\<rparr>"
| "COMMAND_PARAMS STOP = \<lparr>
     cp_action = ''stop'', cp_safety_check = False,
     cp_keywords =
       [[0x505C, 0x4E0B],
        [0x505C, 0x6B62],
        [0x522B, 0x52A8]],
     cp_response_templates =
       [[0x597D, 0x7684, 0x2C, 0x6211, 0x505C, 0x4E0B, 0x4E86],
        [0x5DF2, 0x7ECF, 0x505C, 0x6B62, 0x4E86],
        [0x4E0D, 0x52A8, 0x4E86]]\<rparr>"
| "COMMAND_PARAMS FOLLOW = \<lparr>
     cp_action = ''follow_target'', cp_safety_check = True,
     cp_keywords =
       [[0x8DDF, 0x7740, 0x6211],
        [0x8DDF, 0x6211, 0x6765],
        [0x8DDF, 0x4E0A]],
     cp_response_templates =
       [[0x597D, 0x7684, 0x2C, 0x6211, 0x8DDF, 0x7740, 0x4F60],
        [0x6211, 0x8DDF, 0x4F60, 0x8D70],
        [0x8DDF, 0x4E0A, 0x4F60, 0x4E86]]\<rparr>"
| "COMMAND_PARAMS BACK = \<lparr>
     cp_action = ''move_backward'', cp_safety_check = True,
     cp_keywords =
       [[0x540E, 0x9000],
        [0x5F80, 0x540E],
        [0x5411, 0x540E]],
     cp_response_templates =
       [[0x597D, 0x7684, 0x2C, 0x6211, 0x540E, 0x9000],
        [0x5411, 0x540E, 0x79FB, 0x52A8],
        [0x5F80, 0x540E, 0x8D70]]\<rparr>"
| "COMMAND_PARAMS FORWARD = \<lparr>
     cp_action = ''move_forward'', cp_safety_check = True,
     cp_keywords =
       [[0x5411, 0x524D],
        [0x5F80, 0x524D],
        [0x524D, 0x8FDB]],
     cp_response_templates =
       [[0x597D, 0x7684, 0x2C, 0x6211, 0x5411, 0x524D],
        [0x5411, 0x524D, 0x79FB, 0x52A8],
        [0x5F80, 0x524D, 0x8D70]]\<rparr>"
| "COMMAND_PARAMS DANCE = \<lparr>
     cp_action = ''dance'', cp_safety_check = False,
     cp_keywords =
       [[0x8DF3, 0x821E],
        [0x8DF3, 0x4E00, 0x4E0B],
        [0x8DF3, 0x8D77, 0x6765]],
     cp_response_templates =
       [[0x597D, 0x7684, 0x2C, 0x6211, 0x8DF3, 0x821E],
        [0x770B, 0x6211, 0x7684, 0x821E, 0x59FF],
        [0x8DF3, 0x8D77, 0x6765, 0x4E86]]\<rparr>"

definition get_command_params :: "CommandType \<Rightarrow> command_params" where
  "get_command_params command_type = COMMAND_PARAMS command_type"

definition get_command_by_keywords :: "pystr \<Rightarrow> CommandType list" where
  "get_command_by_keywords text =
     filter (\<lambda>command_type.
        list_ex (\<lambda>keyword. str_in keyword text) (cp_keywords (COMMAND_PARAMS command_type)))
       all_CommandType"

definition needs_safety_check :: "CommandType \<Rightarrow> bool" where
  "needs_safety_check command_type = cp_safety_check (COMMAND_PARAMS command_type)"


section \<open>config/emotions.py\<close>

datatype EmotionType =
  HAPPY | SAD | ANGRY | SURPRISED | SCARED | CALM | EXCITED | BORED | FRIENDLY | SHY

definition all_EmotionType :: "EmotionType list" where
  "all_EmotionType = [HAPPY, SAD, ANGRY, SURPRISED, SCARED, CALM, EXCITED, BORED, FRIENDLY, SHY]"

fun emotion_value :: "EmotionType \<Rightarrow> pystr" where
  "emotion_value HAPPY = [0x9AD8, 0x5174]"
| "emotion_value SAD = [0x96BE, 0x8FC7]"
| "emotion_value ANGRY = [0x6124, 0x6012]"
| "emotion_value SURPRISED = [0x60CA, 0x8BB6]"
| "emotion_value SCARED = [0x5BB3, 0x6015]"
| "emotion_value CALM = [0x5E73, 0x9759]"
| "emotion_value EXCITED = [0x5174, 0x594B]"
| "emotion_value BORED = [0x65E0, 0x804A]"
| "emotion_value FRIENDLY = [0x53CB, 0x5584]"
| "emotion_value SHY = [0x5BB3, 0x7F9E]"

definition EmotionType_of :: "pystr \<Rightarrow> py_error + EmotionType" where
  "EmotionType_of s =
     (case find (\<lambda>e. emotion_value e = s) all_EmotionType of
        None \<Rightarrow> Inl ValueError
      | Some e \<Rightarrow> Inr e)"

record emotion_params =
  ep_speech_speed :: real
  ep_volume :: real
  ep_pitch :: real
  ep_expression :: string
  ep_keywords :: "pystr list"

fun EMOTION_PARAMS :: "EmotionType \<Rightarrow> emotion_params" where
  "EMOTION_PARAMS HAPPY = \<lparr>
     ep_speech_speed = 1.2, ep_volume = 1.1, ep_pitch = 1.1, ep_expression = ''smile'',
     ep_keywords =
       [[0x597D],
        [0x559C, 0x6B22],
        [0x68D2],
        [0x5F00, 0x5FC3]]\<rparr>"
| "EMOTION_PARAMS SAD = \<lparr>
     ep_speech_speed = 0.8, ep_volume = 0.9, ep_pitch = 0.9, ep_expression = ''sad'',
     ep_keywords =
       [[0x4E0D, 0x597D],
        [0x96BE, 0x8FC7],
        [0x4F24, 0x5FC3],
        [0x5931, 0x671B]]\<rparr>"
| "EMOTION_PARAMS ANGRY = \<lparr>
     ep_speech_speed = 1.3, ep_volume = 1.2, ep_pitch = 1.2, ep_expression = ''angry'',
     ep_keywords =
       [[0x751F, 0x6C14],
        [0x8BA8, 0x538C],
        [0x4E0D, 0x8981],
        [0x522B]]\<rparr>"
| "EMOTION_PARAMS SURPRISED = \<lparr>
     ep_speech_speed = 1.1, ep_volume = 1.1, ep_pitch = 1.2, ep_expression = ''surprised'',
     ep_keywords =
       [[0x54C7],
        [0x771F, 0x7684, 0x5417],
        [0x7ADF, 0x7136],
        [0x6CA1, 0x60F3, 0x5230]]\<rparr>"
| "EMOTION_PARAMS SCARED = \<lparr>
     ep_speech_speed = 1.2, ep_volume = 0.8, ep_pitch = 1.1, ep_expression = ''scared'',
     ep_keywords =
       [[0x5BB3, 0x6015],
        [0x53EF, 0x6015],
        [0x5371, 0x9669],
        [0x5C0F, 0x5FC3]]\<rparr>"
| "EMOTION_PARAMS CALM = \<lparr>
     ep_speech_speed = 1.0, ep_volume = 1.0, ep_pitch = 1.0, ep_expression = ''calm'',
     ep_keywords =
       [[0x597D, 0x7684],
        [0x660E, 0x767D],
        [0x77E5, 0x9053],
        [0x5E73, 0x9759]]\<rparr>"
| "EMOTION_PARAMS EXCITED = \<lparr>
     ep_speech_speed = 1.3, ep_volume = 1.2, ep_pitch = 1.2, ep_expression = ''excited'',
     ep_keywords =
       [[0x592A, 0x597D, 0x4E86],
        [0x592A, 0x68D2, 0x4E86],
        [0x597D, 0x6FC0, 0x52A8],
        [0x671F, 0x5F85]]\<rparr>"
| "EMOTION_PARAMS BORED = \<lparr>
     ep_speech_speed = 0.9, ep_volume = 0.9, ep_pitch = 0.9, ep_expression = ''bored'',
     ep_keywords =
       [[0x65E0, 0x804A],
        [0x56F0],
        [0x4E4F],
        [0x61D2]]\<rparr>"
| "EMOTION_PARAMS FRIENDLY = \<lparr>
     ep_speech_speed = 1.1, ep_volume = 1.0, ep_pitch = 1.0, ep_expression = ''friendly'',
     ep_keywords =
       [[0x670B, 0x53CB],
        [0x4E00, 0x8D77],
        [0x5E2E, 0x52A9],
        [0x8C22, 0x8C22]]\<rparr>"
| "EMOTION_PARAMS SHY = \<lparr>
     ep_speech_speed = 0.9, ep_volume = 0.8, ep_pitch = 0.9, ep_expression = ''shy'',
     ep_keywords =
       [[0x5BB3, 0x7F9E],
        [0x4E0D, 0x597D, 0x610F, 0x601D],
        [0x62B1, 0x6B49],
        [0x5BF9, 0x4E0D, 0x8D77]]\<rparr>"

definition get_emotion_params :: "EmotionType \<Rightarrow> emotion_params" where
  "get_emotion_params emotion_type = EMOTION_PARAMS emotion_type"

definition get_emotion_by_keywords :: "pystr \<Rightarrow> EmotionType list" where
  "get_emotion_by_keywords text =
     filter (\<lambda>emotion_type.
        list_ex (\<lambda>keyword. str_in keyword text) (ep_keywords (EMOTION_PARAMS emotion_type)))
       all_EmotionType"


section \<open>The configuration file\<close>

text \<open>
  Every analyzer loads \<^verbatim>\<open>config/config.json\<close> in its constructor and keeps \<open>None\<close> when that
  fails. The file is not part of the sources, so the loaded JSON is a parameter. A key that
  the code reads with a subscript is an \<open>option\<close>: \<open>None\<close> is a missing key, and the
  subscript raises \<open>KeyError\<close>.
\<close>

record emotion_section =
  speech_speed_range :: "real list option"
  volume_range :: "real list option"
  pitch_range :: "real list option"
  triggers :: "(pystr \<times> pystr list) list option"

record safety_section =
  min_obstacle_distance :: "real option"
  cfg_danger_keywords :: "pystr list option"
  cfg_restricted_areas :: "pystr list option"
  max_speed :: "real option"
  required_checks :: "pystr list option"

record config =
  cfg_emotion :: "emotion_section option"
  cfg_safety :: "safety_section option"
  cfg_responses :: "(pystr \<times> pystr list) list option"


section \<open>Scene and context dictionaries\<close>

text \<open>
  A JSON number that the code compares or converts: \<open>PyNum\<close> is a number, \<open>PyNumStr\<close> a
  string that \<^verbatim>\<open>float()\<close> parses, \<open>PyOther\<close> anything else.
\<close>

datatype pyval = PyNum real | PyNumStr real | PyOther

text \<open>
  An entry of the scene's obstacle list: a dictionary with an optional numeric
  \<^verbatim>\<open>distance\<close>, or an entry on which \<^verbatim>\<open>obstacle.get('distance', inf) < min_distance\<close>
  raises (not a dictionary, or a distance that is not a number).
\<close>

datatype obstacle = Obstacle "real option" | Malformed

text \<open>The outcome of \<^verbatim>\<open>float(temperature.replace(degC, ''))\<close> on the scene's temperature.\<close>

datatype temperature_value = Temp real | TempUnparsable

text \<open>
  The scene dictionary, with the keys the three analyzers read; \<open>other_keys\<close> says that it
  holds further keys (lighting, safety status), which makes it non-empty.
\<close>

record scene_info =
  obstacles :: "obstacle list option"
  sc_has_obstacles :: "bool option"
  sc_is_safe :: "bool option"
  temperature :: "temperature_value option"
  area :: "pystr option"
  speed :: "pyval option"
  obstacle_distance :: "pyval option"
  other_keys :: bool

definition empty_scene :: scene_info where
  "empty_scene = \<lparr>obstacles = None, sc_has_obstacles = None, sc_is_safe = None,
     temperature = None, area = None, speed = None, obstacle_distance = None,
     other_keys = False\<rparr>"

text \<open>Truth value of the scene dictionary: it is non-empty.\<close>

definition scene_truthy :: "scene_info \<Rightarrow> bool" where
  "scene_truthy sc = (sc \<noteq> empty_scene)"

text \<open>
  The context dictionary built by the context analyzer. The keys \<^verbatim>\<open>words\<close>,
  \<^verbatim>\<open>pos_tags\<close>, \<^verbatim>\<open>tone_analysis\<close> and \<^verbatim>\<open>scene_emotion_impact\<close> are written but never
  read by the emotion analyzer or the decision maker and are left out. The last three
  fields are keys that are only set when a scene is given.
\<close>

record analysis_context =
  original_text :: pystr
  ctx_keywords :: "pystr list"
  possible_commands :: "pystr list"
  possible_emotions :: "pystr list"
  context_type :: pystr
  context_confidence :: real
  scene :: "scene_info option"
  has_obstacles :: "bool option"
  is_safe :: "bool option"

text \<open>\<^verbatim>\<open>d.get(key, default)\<close>\<close>

definition get_or :: "'a option \<Rightarrow> 'a \<Rightarrow> 'a" where
  "get_or v d = (case v of None \<Rightarrow> d | Some x \<Rightarrow> x)"


section \<open>core/context_analyzer.py\<close>

definition extract_keywords :: "pystr list \<Rightarrow> pystr list" where
  "extract_keywords words = remdups (filter is_valid_word words)"

text \<open>
  \<^verbatim>\<open>re.search(r'(qing|mafan|bangmang).*(haoma|keyima)', text)\<close>: one of the three request
  markers, later one of the two closing phrases, and no line break between them.
\<close>

definition request_markers :: "pystr list" where
  "request_markers = [[0x8BF7], [0x9EBB, 0x70E6], [0x5E2E, 0x5FD9]]"

definition request_closings :: "pystr list" where
  "request_closings = [[0x597D, 0x5417], [0x53EF, 0x4EE5, 0x5417]]"

fun closing_follows :: "pystr \<Rightarrow> bool" where
  "closing_follows [] = False"
| "closing_follows (c # cs) =
     (list_ex (startswith (c # cs)) request_closings \<or> (c \<noteq> 10 \<and> closing_follows cs))"

fun request_pattern :: "pystr \<Rightarrow> bool" where
  "request_pattern [] = False"
| "request_pattern (c # cs) =
     (list_ex (\<lambda>m. startswith (c # cs) m \<and> closing_follows (drop (length m) (c # cs)))
        request_markers
      \<or> request_pattern cs)"

definition question_words :: "pystr list" where
  "question_words =
     [[0x662F, 0x5417], [0x771F, 0x7684, 0x5417], [0x4EC0, 0x4E48],
      [0x4E3A, 0x4EC0, 0x4E48], [0x600E, 0x4E48, 0x6837]]"

definition greeting_words :: "pystr list" where
  "greeting_words =
     [[0x4F60, 0x597D], [0x65E9, 0x4E0A, 0x597D], [0x4E0B, 0x5348, 0x597D],
      [0x665A, 0x4E0A, 0x597D], [0x518D, 0x89C1]]"

definition analyze_context_type ::
  "pystr \<Rightarrow> pystr list \<Rightarrow> pystr list \<Rightarrow> pystr list \<Rightarrow> CommandType list \<Rightarrow> pystr \<times> real" where
  "analyze_context_type text words pos_tags keywords cmds =
     (let command = (if cmds \<noteq> [] then 0.6 else 0)
                    + 0.1 * real (count_list pos_tags (ascii ''v''))
                    + (if request_pattern text then 0.3 else 0);
          question = 0.1 * real (count_list pos_tags (ascii ''y''))
                    + (if str_in [0xFF1F] text \<or> str_in (ascii ''?'') text then 0.4 else 0)
                    + (if set keywords \<inter> set question_words \<noteq> {} then 0.4 else 0);
          greeting = (if set keywords \<inter> set greeting_words \<noteq> {} then 0.6 else 0);
          chat = 0.1
      in max_item (ascii ''command'', command)
           [(ascii ''question'', question), (ascii ''greeting'', greeting), (ascii ''chat'', chat)])"

text \<open>The loop of \<open>_check_safety\<close> with its handler: an exception returns \<open>True\<close>.\<close>

fun obstacles_safe :: "real \<Rightarrow> obstacle list \<Rightarrow> bool" where
  "obstacles_safe min_distance [] = True"
| "obstacles_safe min_distance (Malformed # rest) = True"
| "obstacles_safe min_distance (Obstacle None # rest) = obstacles_safe min_distance rest"
| "obstacles_safe min_distance (Obstacle (Some distance) # rest) =
     (if distance < min_distance then False else obstacles_safe min_distance rest)"

definition check_safety :: "config option \<Rightarrow> pystr list \<Rightarrow> obstacle list \<Rightarrow> bool" where
  "check_safety cfg commands obs =
     (if commands = [] \<or> obs = [] then True
      else case cfg of
        None \<Rightarrow> True
      | Some c \<Rightarrow>
          (case cfg_safety c of
             None \<Rightarrow> True
           | Some safety_config \<Rightarrow>
               (case min_obstacle_distance safety_config of
                  None \<Rightarrow> True
                | Some min_distance \<Rightarrow> obstacles_safe min_distance obs)))"

definition combine_scene_info ::
  "config option \<Rightarrow> analysis_context \<Rightarrow> scene_info option \<Rightarrow> analysis_context" where
  "combine_scene_info cfg ctx scene_arg =
     (case scene_arg of
        None \<Rightarrow> ctx
      | Some sc \<Rightarrow>
          if \<not> scene_truthy sc then ctx
          else (case obstacles sc of
                  Some obs \<Rightarrow>
                    ctx\<lparr>scene := Some sc,
                        has_obstacles := Some (obs \<noteq> []),
                        is_safe := Some (check_safety cfg (possible_commands ctx) obs)\<rparr>
                | None \<Rightarrow>
                    ctx\<lparr>scene := Some sc, has_obstacles := Some False, is_safe := Some True\<rparr>))"

text \<open>
  \<open>ContextAnalyzer.analyze\<close>. The tokenizer is an external library: \<open>tokens\<close> is what
  \<^verbatim>\<open>pseg.cut(text)\<close> yields, \<open>None\<close> when it raises, which the handler turns into the
  default context.
\<close>

definition ContextAnalyzer_analyze ::
  "config option \<Rightarrow> (pystr \<times> pystr) list option \<Rightarrow> pystr \<Rightarrow> scene_info option \<Rightarrow> analysis_context" where
  "ContextAnalyzer_analyze cfg tokens text scene_arg =
     (case tokens of
        None \<Rightarrow>
          \<lparr>original_text = text, ctx_keywords = [], possible_commands = [],
           possible_emotions = [], context_type = ascii ''chat'', context_confidence = 0.5,
           scene = None, has_obstacles = None, is_safe = None\<rparr>
      | Some words_pos \<Rightarrow>
          (let words = map fst words_pos;
               pos_tags = map snd words_pos;
               keywords = extract_keywords words;
               commands = get_command_by_keywords text;
               emotions = get_emotion_by_keywords text;
               (ctype, confidence) = analyze_context_type text words pos_tags keywords commands
           in combine_scene_info cfg
                \<lparr>original_text = text, ctx_keywords = keywords,
                 possible_commands = map command_value commands,
                 possible_emotions = map emotion_value emotions,
                 context_type = ctype, context_confidence = confidence,
                 scene = None, has_obstacles = None, is_safe = None\<rparr>
                scene_arg))"


section \<open>core/emotion_analyzer.py\<close>

record EmotionAnalyzer =
  current_emotion :: EmotionType
  emotion_history :: "EmotionType list"
  history_size :: nat
  ea_config :: "config option"

text \<open>The constructor; \<open>loaded\<close> is the configuration file, \<open>None\<close> when loading failed.\<close>

definition EmotionAnalyzer_init :: "config option \<Rightarrow> EmotionAnalyzer" where
  "EmotionAnalyzer_init loaded =
     \<lparr>current_emotion = CALM, emotion_history = [], history_size = 5, ea_config = loaded\<rparr>"

record emotion_result =
  emotion_type :: pystr
  params :: emotion_params
  history :: "pystr list"
  confidence :: real

text \<open>A loop whose body may raise: the first exception ends it.\<close>

fun mapM :: "('a \<Rightarrow> py_error + 'b) \<Rightarrow> 'a list \<Rightarrow> py_error + 'b list" where
  "mapM f [] = Inr []"
| "mapM f (x # xs) =
     (case f x of
        Inl e \<Rightarrow> Inl e
      | Inr y \<Rightarrow> (case mapM f xs of Inl e \<Rightarrow> Inl e | Inr ys \<Rightarrow> Inr (y # ys)))"

text \<open>
  A score dictionary is an association list in insertion order.
  \<open>add_score d (k, s)\<close> is \<^verbatim>\<open>d[k] = d.get(k, 0) + s\<close>.
\<close>

fun add_score :: "('k \<times> real) list \<Rightarrow> 'k \<times> real \<Rightarrow> ('k \<times> real) list" where
  "add_score [] (k, s) = [(k, 0 + s)]"
| "add_score ((k', v) # rest) (k, s) =
     (if k' = k then (k', v + s) # rest else (k', v) # add_score rest (k, s))"

definition add_scores :: "('k \<times> real) list \<Rightarrow> ('k \<times> real) list \<Rightarrow> ('k \<times> real) list" where
  "add_scores d extra = foldl add_score d extra"

definition calculate_keyword_score ::
  "EmotionAnalyzer \<Rightarrow> EmotionType \<Rightarrow> pystr list \<Rightarrow> py_error + real" where
  "calculate_keyword_score ea emotion keywords =
     (case ea_config ea of
        None \<Rightarrow> Inr 0
      | Some c \<Rightarrow>
          (case cfg_emotion c of
             None \<Rightarrow> Inl KeyError
           | Some em \<Rightarrow>
               (case triggers em of
                  None \<Rightarrow> Inl KeyError
                | Some tr \<Rightarrow>
                    (let emotion_keywords = get_or (map_of tr (emotion_value emotion)) []
                     in if emotion_keywords = [] then Inr 0
                        else Inr (real (card (set keywords \<inter> set emotion_keywords))
                                  / real (card (set emotion_keywords)))))))"

definition get_context_type_scores :: "pystr \<Rightarrow> (EmotionType \<times> real) list" where
  "get_context_type_scores ctype =
     (if ctype = ascii ''greeting'' then [(FRIENDLY, 0.8), (HAPPY, 0.6)]
      else if ctype = ascii ''command'' then [(EXCITED, 0.7), (FRIENDLY, 0.5)]
      else if ctype = ascii ''question'' then [(SURPRISED, 0.6), (FRIENDLY, 0.4)]
      else [(CALM, 0.5), (FRIENDLY, 0.3)])"

definition calculate_history_scores :: "EmotionAnalyzer \<Rightarrow> (EmotionType \<times> real) list" where
  "calculate_history_scores ea =
     (let h = emotion_history ea
      in if h = [] then []
         else map (\<lambda>emotion. (emotion, real (count_list h emotion) / real (length h) * 0.5))
                (remdups h))"

definition calculate_scene_scores :: "scene_info \<Rightarrow> (EmotionType \<times> real) list" where
  "calculate_scene_scores sc =
     (let s1 = (if \<not> get_or (sc_is_safe sc) True then [(SCARED, 0.8), (SURPRISED, 0.6)] else []);
          s2 = (if get_or (sc_has_obstacles sc) False then add_score s1 (SCARED, 0.4) else s1)
      in case get_or (temperature sc) (Temp 25) of
           Temp t \<Rightarrow>
             if t > 30 then s2 @ [(ANGRY, 0.3)]
             else if t < 10 then s2 @ [(SAD, 0.3)]
             else s2
         | TempUnparsable \<Rightarrow> s2)"

text \<open>
  \<open>_recognize_emotion\<close>; \<open>r\<close> is the random draw that \<^verbatim>\<open>random.choice\<close> would use.
\<close>

definition recognize_emotion ::
  "nat \<Rightarrow> EmotionAnalyzer \<Rightarrow> analysis_context \<Rightarrow> py_error + EmotionType \<times> real" where
  "recognize_emotion r ea ctx =
     (case mapM EmotionType_of (possible_emotions ctx) of
        Inl e \<Rightarrow> Inl e
      | Inr candidates \<Rightarrow>
          (case mapM (\<lambda>emotion.
                   case calculate_keyword_score ea emotion (ctx_keywords ctx) of
                     Inl e \<Rightarrow> Inl e
                   | Inr score \<Rightarrow> Inr (emotion, score)) all_EmotionType of
             Inl e \<Rightarrow> Inl e
           | Inr keyword_scores \<Rightarrow>
               (let s1 = add_scores keyword_scores (get_context_type_scores (context_type ctx));
                    s2 = add_scores s1 (calculate_history_scores ea);
                    emotion_scores =
                      add_scores s2 (calculate_scene_scores (get_or (scene ctx) empty_scene))
                in case map snd emotion_scores of
                     [] \<Rightarrow> Inr (current_emotion ea, min 1 (max 0 0.5))
                   | v # vs \<Rightarrow>
                       (let max_score = fold max vs v;
                            best_emotions =
                              map fst (filter (\<lambda>(e, s). s = max_score) emotion_scores)
                        in case (case candidates of
                                   first # _ \<Rightarrow> Inr first
                                 | [] \<Rightarrow> random_choice r best_emotions) of
                             Inl e \<Rightarrow> Inl e
                           | Inr selected_emotion \<Rightarrow>
                               Inr (selected_emotion,
                                    min 1 (max 0 (max_score
                                                  / (real (length emotion_scores) * 4))))))))"

definition update_emotion_state :: "EmotionAnalyzer \<Rightarrow> EmotionType \<Rightarrow> EmotionAnalyzer" where
  "update_emotion_state ea new_emotion =
     (let h = emotion_history ea @ [new_emotion]
      in ea\<lparr>current_emotion := new_emotion,
            emotion_history := (if length h > history_size ea then tl h else h)\<rparr>)"

text \<open>\<^verbatim>\<open>max(ranges[0], min(ranges[1], v))\<close>; a list shorter than two raises \<open>IndexError\<close>.\<close>

definition clamp_range :: "real list \<Rightarrow> real \<Rightarrow> py_error + real" where
  "clamp_range ranges v =
     (case ranges of
        lo # hi # _ \<Rightarrow> Inr (max lo (min hi v))
      | _ \<Rightarrow> Inl IndexError)"

definition adjust_params ::
  "EmotionAnalyzer \<Rightarrow> emotion_params \<Rightarrow> analysis_context \<Rightarrow> real \<Rightarrow> py_error + emotion_params" where
  "adjust_params ea ps ctx conf =
     (case ea_config ea of
        None \<Rightarrow> Inr ps
      | Some c \<Rightarrow>
          (let blend = (\<lambda>current_value. current_value * conf + 1.0 * (1 - conf));
               p1 = ps\<lparr>ep_speech_speed := blend (ep_speech_speed ps),
                       ep_volume := blend (ep_volume ps),
                       ep_pitch := blend (ep_pitch ps)\<rparr>;
               p2 = (if \<not> get_or (is_safe ctx) True
                     then p1\<lparr>ep_speech_speed := ep_speech_speed p1 * 1.2,
                             ep_volume := ep_volume p1 * 0.8\<rparr>
                     else p1);
               p3 = (if context_type ctx = ascii ''command''
                     then p2\<lparr>ep_speech_speed := ep_speech_speed p2 * 1.1\<rparr>
                     else p2)
           in case cfg_emotion c of
                None \<Rightarrow> Inl KeyError
              | Some em \<Rightarrow>
                  (case clamp_range (get_or (speech_speed_range em) [0.8, 1.3])
                          (ep_speech_speed p3) of
                     Inl e \<Rightarrow> Inl e
                   | Inr sp \<Rightarrow>
                       (case clamp_range (get_or (volume_range em) [0.8, 1.2]) (ep_volume p3) of
                          Inl e \<Rightarrow> Inl e
                        | Inr vol \<Rightarrow> Inr (p3\<lparr>ep_speech_speed := sp, ep_volume := vol\<rparr>)))))"

text \<open>The handler of \<open>analyze\<close>: the result it returns for the analyzer state \<open>ea\<close>.\<close>

definition analyze_failed :: "EmotionAnalyzer \<Rightarrow> emotion_result" where
  "analyze_failed ea =
     \<lparr>emotion_type = emotion_value CALM, params = get_emotion_params CALM,
      history = map emotion_value (emotion_history ea), confidence = 0.5\<rparr>"

definition EmotionAnalyzer_analyze ::
  "nat \<Rightarrow> EmotionAnalyzer \<Rightarrow> analysis_context \<Rightarrow> emotion_result \<times> EmotionAnalyzer" where
  "EmotionAnalyzer_analyze r ea ctx =
     (case recognize_emotion r ea ctx of
        Inl e \<Rightarrow> (analyze_failed ea, ea)
      | Inr (etype, conf) \<Rightarrow>
          (let ea' = update_emotion_state ea etype
           in case adjust_params ea' (get_emotion_params etype) ctx conf of
                Inl e \<Rightarrow> (analyze_failed ea', ea')
              | Inr adjusted \<Rightarrow>
                  (\<lparr>emotion_type = emotion_value etype, params = adjusted,
                    history = map emotion_value (emotion_history ea'), confidence = conf\<rparr>,
                   ea')))"


section \<open>core/decision_maker.py\<close>

record DecisionMaker =
  dm_config :: "config option"
  danger_keywords :: "pystr list"
  restricted_areas :: "pystr list"
  command_history :: "pystr list"
  max_history_size :: nat

text \<open>
  The constructor. A configuration without the safety section or one of its two keyword
  lists raises inside the \<^verbatim>\<open>try\<close>, and the handler drops the whole configuration. The two
  sets are kept as duplicate-free lists.
\<close>

definition DecisionMaker_init :: "config option \<Rightarrow> DecisionMaker" where
  "DecisionMaker_init loaded =
     (let failed = \<lparr>dm_config = None, danger_keywords = [], restricted_areas = [],
                     command_history = [], max_history_size = 10\<rparr>
      in case loaded of
           None \<Rightarrow> failed
         | Some c \<Rightarrow>
             (case cfg_safety c of
                None \<Rightarrow> failed
              | Some s \<Rightarrow>
                  (case cfg_danger_keywords s of
                     None \<Rightarrow> failed
                   | Some dk \<Rightarrow>
                       (case cfg_restricted_areas s of
                          None \<Rightarrow> failed
                        | Some ra \<Rightarrow>
                            \<lparr>dm_config = Some c, danger_keywords = remdups dk,
                             restricted_areas = remdups ra,
                             command_history = [], max_history_size = 10\<rparr>))))"

record safety_assessment =
  sa_is_safe :: bool
  sa_reason :: "pystr option"
  sa_score :: real

text \<open>
  The decision dictionary; a key that a branch does not set is \<open>None\<close>. A decision with
  \<open>should_execute\<close> and an action is Executable, one with \<open>should_execute\<close> and no action is
  Conversational, one without \<open>should_execute\<close> is Rejected.
\<close>

record decision =
  should_execute :: bool
  reject_reason :: "pystr option"
  action_type :: "string option"
  response_template :: "pystr option"
  vocabulary_constraints :: "pystr list"
  safety_score :: "real option"

text \<open>The literals of the module, as code points.\<close>

definition reason_environment_unsafe :: pystr where
  "reason_environment_unsafe = [0x5F53, 0x524D, 0x73AF, 0x5883, 0x4E0D, 0x5B89, 0x5168]"

definition reason_danger_words :: pystr where
  "reason_danger_words = [0x5305, 0x542B, 0x5371, 0x9669, 0x8BCD, 0x6C47, 0x3A, 0x20]"

definition reason_obstacle_ahead :: pystr where
  "reason_obstacle_ahead = [0x524D, 0x65B9, 0x6709, 0x969C, 0x788D, 0x7269]"

definition reason_restricted_area :: pystr where
  "reason_restricted_area = [0x5F53, 0x524D, 0x5904, 0x4E8E, 0x9650, 0x5236, 0x533A, 0x57DF, 0x3A, 0x20]"

definition reason_speed_limit :: pystr where
  "reason_speed_limit = [0x901F, 0x5EA6, 0x8D85, 0x8FC7, 0x9650, 0x5236]"

definition reason_check_failed :: pystr where
  "reason_check_failed = [0x65E0, 0x6CD5, 0x5B8C, 0x6210, 0x5B89, 0x5168, 0x68C0, 0x67E5]"

definition reason_bad_mood :: pystr where
  "reason_bad_mood = [0x6211, 0x73B0, 0x5728, 0x7684, 0x5FC3, 0x60C5, 0x4E0D, 0x592A, 0x597D]"

definition reason_too_frequent :: pystr where
  "reason_too_frequent =
     [0x8FD9, 0x4E2A, 0x52A8, 0x4F5C, 0x6700, 0x8FD1, 0x505A, 0x5F97, 0x592A, 0x9891, 0x7E41, 0x4E86]"

definition reason_cannot_process :: pystr where
  "reason_cannot_process =
     [0x62B1, 0x6B49, 0x2C, 0x6211, 0x65E0, 0x6CD5, 0x5904, 0x7406, 0x8FD9, 0x4E2A, 0x6307, 0x4EE4]"

definition reason_no_command :: pystr where
  "reason_no_command = [0x6CA1, 0x6709, 0x53EF, 0x7528, 0x7684, 0x547D, 0x4EE4]"

text \<open>The two emotion names of the mood check in \<open>_process_command\<close>.\<close>

definition mood_blocklist :: "pystr list" where
  "mood_blocklist = [[0x5BB3, 0x6015], [0x751F, 0x6C14]]"

text \<open>
  \<^verbatim>\<open>self.config['safety'][key]\<close>: \<open>None\<close> when the subscripts raise, because the
  configuration was dropped or the key is missing.
\<close>

definition safety_key :: "DecisionMaker \<Rightarrow> (safety_section \<Rightarrow> 'a option) \<Rightarrow> 'a option" where
  "safety_key dm key =
     (case dm_config dm of
        None \<Rightarrow> None
      | Some c \<Rightarrow> (case cfg_safety c of None \<Rightarrow> None | Some s \<Rightarrow> key s))"

definition pass_safety_check :: "DecisionMaker \<Rightarrow> pystr \<Rightarrow> scene_info \<Rightarrow> bool" where
  "pass_safety_check dm check_type sc =
     (if check_type = ascii ''distance'' then
        (case safety_key dm min_obstacle_distance of
           None \<Rightarrow> False
         | Some min_distance \<Rightarrow>
             (case obstacle_distance sc of
                None \<Rightarrow> True
              | Some (PyNum current_distance) \<Rightarrow> current_distance \<ge> min_distance
              | Some _ \<Rightarrow> False))
      else if check_type = ascii ''speed'' then
        (case safety_key dm max_speed of
           None \<Rightarrow> False
         | Some limit \<Rightarrow>
             (case get_or (speed sc) (PyNum 0.0) of
                PyNum current_speed \<Rightarrow> current_speed \<le> limit
              | _ \<Rightarrow> False))
      else if check_type = ascii ''obstacles'' then \<not> get_or (sc_has_obstacles sc) False
      else if check_type = ascii ''area'' then get_or (area sc) [] \<notin> set (restricted_areas dm)
      else True)"

text \<open>
  Step 4.3 of \<open>_check_command_safety\<close>: the speed is over the limit. Whatever raises inside
  its \<^verbatim>\<open>try\<close> is swallowed and the check goes on.
\<close>

definition speed_over_limit :: "DecisionMaker \<Rightarrow> scene_info \<Rightarrow> bool" where
  "speed_over_limit dm sc =
     (case speed sc of
        None \<Rightarrow> False
      | Some PyOther \<Rightarrow> False
      | Some (PyNum v) \<Rightarrow> (case safety_key dm max_speed of None \<Rightarrow> False | Some limit \<Rightarrow> v > limit)
      | Some (PyNumStr v) \<Rightarrow> (case safety_key dm max_speed of None \<Rightarrow> False | Some limit \<Rightarrow> v > limit))"

definition unsafe :: "pystr \<Rightarrow> safety_assessment" where
  "unsafe reason = \<lparr>sa_is_safe = False, sa_reason = Some reason, sa_score = 0.0\<rparr>"

definition check_command_safety ::
  "DecisionMaker \<Rightarrow> pystr \<Rightarrow> analysis_context \<Rightarrow> safety_assessment" where
  "check_command_safety dm command ctx =
     (case CommandType_of command of
        Inl _ \<Rightarrow> unsafe reason_check_failed
      | Inr command_type \<Rightarrow>
          if \<not> needs_safety_check command_type
          then \<lparr>sa_is_safe = True, sa_reason = None, sa_score = 1.0\<rparr>
          else if \<not> get_or (is_safe ctx) True then unsafe reason_environment_unsafe
          else
            (let danger_words =
                   filter (\<lambda>word. str_in word (original_text ctx)) (danger_keywords dm)
             in if danger_words \<noteq> []
                then unsafe (reason_danger_words @ join (ascii '', '') danger_words)
                else
                  (let sc = get_or (scene ctx) empty_scene
                   in if get_or (sc_has_obstacles sc) False \<and> get_or (obstacles sc) [] \<noteq> []
                      then unsafe reason_obstacle_ahead
                      else if get_or (area sc) [] \<in> set (restricted_areas dm)
                      then unsafe (reason_restricted_area @ get_or (area sc) [])
                      else if speed_over_limit dm sc then unsafe reason_speed_limit
                      else
                        (case safety_key dm required_checks of
                           None \<Rightarrow> unsafe reason_check_failed
                         | Some safety_checks \<Rightarrow>
                             if safety_checks = [] then unsafe reason_check_failed
                             else
                               \<lparr>sa_is_safe = True, sa_reason = None,
                                sa_score =
                                  real (length (filter (\<lambda>check. pass_safety_check dm check sc)
                                                  safety_checks))
                                  / real (length safety_checks)\<rparr>))))"

text \<open>\<^verbatim>\<open>self.command_history[-3:]\<close>\<close>

definition last3 :: "'a list \<Rightarrow> 'a list" where
  "last3 xs = drop (length xs - 3) xs"

definition check_command_history :: "DecisionMaker \<Rightarrow> pystr \<Rightarrow> bool" where
  "check_command_history dm command =
     (let recent_commands = last3 (command_history dm)
      in count_list recent_commands command < 2)"

definition update_command_history :: "DecisionMaker \<Rightarrow> pystr \<Rightarrow> DecisionMaker" where
  "update_command_history dm command =
     (let h = command_history dm @ [command]
      in dm\<lparr>command_history := (if length h > max_history_size dm then tl h else h)\<rparr>)"

definition is_template_suitable :: "pystr \<Rightarrow> pystr \<Rightarrow> bool" where
  "is_template_suitable template etype = True"

definition select_response_template ::
  "nat \<Rightarrow> pystr list \<Rightarrow> emotion_result \<Rightarrow> py_error + pystr" where
  "select_response_template r templates emotion =
     (let suitable_templates =
            filter (\<lambda>template. is_template_suitable template (emotion_type emotion)) templates
      in if suitable_templates \<noteq> [] then random_choice r suitable_templates
         else random_choice r templates)"

text \<open>The five phrasings of a refusal; \<open>r\<close> is the random draw.\<close>

definition reject_templates :: "pystr \<Rightarrow> pystr \<Rightarrow> pystr list" where
  "reject_templates command reason =
     [[0x5BF9, 0x4E0D, 0x8D77, 0x2C] @ reason,
      [0x62B1, 0x6B49, 0x2C] @ reason,
      [0x6211, 0x4E0D, 0x80FD] @ command @ [0x2C] @ reason,
      [0x73B0, 0x5728, 0x4E0D, 0x80FD] @ command @ [0x2C, 0x56E0, 0x4E3A] @ reason,
      [0x6267, 0x884C] @ command @ [0x53EF, 0x80FD, 0x6709, 0x98CE, 0x9669, 0x2C] @ reason]"

definition generate_reject_response :: "nat \<Rightarrow> pystr \<Rightarrow> pystr \<Rightarrow> pystr" where
  "generate_reject_response r command reason =
     reject_templates command reason ! (r mod 5)"

definition rejection :: "pystr \<Rightarrow> real \<Rightarrow> decision" where
  "rejection reason score =
     \<lparr>should_execute = False, reject_reason = Some reason, action_type = None,
      response_template = None, vocabulary_constraints = ALL_VOCABULARY,
      safety_score = Some score\<rparr>"

definition process_command ::
  "nat \<Rightarrow> DecisionMaker \<Rightarrow> pystr \<Rightarrow> analysis_context \<Rightarrow> emotion_result
     \<Rightarrow> decision \<times> DecisionMaker" where
  "process_command r dm command ctx emotion =
     (let safety_result = check_command_safety dm command ctx
      in if \<not> sa_is_safe safety_result
         then (rejection
                 (generate_reject_response r command
                    (get_or (sa_reason safety_result) (ascii ''None'')))
                 (sa_score safety_result), dm)
         else if emotion_type emotion \<in> set mood_blocklist
         then (rejection (generate_reject_response r command reason_bad_mood) 0.5, dm)
         else if \<not> check_command_history dm command
         then (rejection (generate_reject_response r command reason_too_frequent) 0.5, dm)
         else
           (case CommandType_of command of
              Inl _ \<Rightarrow> (rejection reason_cannot_process 0.0, dm)
            | Inr command_type \<Rightarrow>
                (let command_params = get_command_params command_type;
                     dm' = update_command_history dm command
                 in case select_response_template r
                           (cp_response_templates command_params) emotion of
                      Inl _ \<Rightarrow> (rejection reason_cannot_process 0.0, dm')
                    | Inr template \<Rightarrow>
                        (\<lparr>should_execute = True, reject_reason = None,
                          action_type = Some (cp_action command_params),
                          response_template = Some template,
                          vocabulary_constraints = ALL_VOCABULARY,
                          safety_score = Some (sa_score safety_result)\<rparr>, dm'))))"

definition get_vocabulary_constraints :: "DecisionMaker \<Rightarrow> pystr \<Rightarrow> pystr list" where
  "get_vocabulary_constraints dm response_type =
     (case dm_config dm of
        None \<Rightarrow> ALL_VOCABULARY
      | Some c \<Rightarrow>
          (case cfg_responses c of
             None \<Rightarrow> ALL_VOCABULARY
           | Some responses \<Rightarrow> get_or (map_of responses response_type) ALL_VOCABULARY))"

definition generate_chat_decision :: "DecisionMaker \<Rightarrow> analysis_context \<Rightarrow> decision" where
  "generate_chat_decision dm ctx =
     (let response_type =
            (if context_type ctx = ascii ''greeting'' then ascii ''greeting''
             else if context_type ctx = ascii ''question'' then ascii ''question''
             else ascii ''chat'')
      in \<lparr>should_execute = True, reject_reason = None, action_type = None,
          response_template = None,
          vocabulary_constraints = get_vocabulary_constraints dm response_type,
          safety_score = None\<rparr>)"

definition select_best_command_result :: "decision list \<Rightarrow> decision" where
  "select_best_command_result results =
     (case results of
        [] \<Rightarrow>
          \<lparr>should_execute = False, reject_reason = Some reason_no_command, action_type = None,
           response_template = None, vocabulary_constraints = ALL_VOCABULARY,
           safety_score = None\<rparr>
      | first # _ \<Rightarrow>
          (case map (\<lambda>d. (d, get_or (safety_score d) 0.0)) (filter should_execute results) of
             [] \<Rightarrow> first
           | x # xs \<Rightarrow> fst (max_item x xs)))"

text \<open>
  The loop of \<open>make_decision\<close> over the candidates: the \<open>i\<close>-th candidate is processed with
  the random draw \<open>rnd i\<close>, on the decision maker as the candidates before it left it.
\<close>

fun process_commands ::
  "(nat \<Rightarrow> nat) \<Rightarrow> nat \<Rightarrow> DecisionMaker \<Rightarrow> pystr list \<Rightarrow> analysis_context \<Rightarrow> emotion_result
     \<Rightarrow> decision list \<times> DecisionMaker" where
  "process_commands rnd i dm [] ctx emotion = ([], dm)"
| "process_commands rnd i dm (command # rest) ctx emotion =
     (case process_command (rnd i) dm command ctx emotion of
        (result, dm') \<Rightarrow>
          (case process_commands rnd (Suc i) dm' rest ctx emotion of
             (command_results, dm'') \<Rightarrow> (result # command_results, dm'')))"

definition make_decision ::
  "(nat \<Rightarrow> nat) \<Rightarrow> DecisionMaker \<Rightarrow> analysis_context \<Rightarrow> emotion_result
     \<Rightarrow> decision \<times> DecisionMaker" where
  "make_decision rnd dm ctx emotion =
     (if context_type ctx = ascii ''command'' \<and> possible_commands ctx \<noteq> []
      then (case process_commands rnd 0 dm (possible_commands ctx) ctx emotion of
              (command_results, dm') \<Rightarrow> (select_best_command_result command_results, dm'))
      else (generate_chat_decision dm ctx, dm))"


section \<open>Sessions\<close>

text \<open>
  A session owns one emotion analyzer and one decision maker, both built from the same
  configuration file, and receives a sequence of calls.
\<close>

record session =
  analyzer :: EmotionAnalyzer
  decider :: DecisionMaker

datatype call =
  Analyze nat analysis_context
| Decide "nat \<Rightarrow> nat" analysis_context emotion_result

definition new_session :: "config option \<Rightarrow> session" where
  "new_session loaded =
     \<lparr>analyzer = EmotionAnalyzer_init loaded, decider = DecisionMaker_init loaded\<rparr>"

fun session_step :: "session \<Rightarrow> call \<Rightarrow> session" where
  "session_step s (Analyze r ctx) =
     s\<lparr>analyzer := snd (EmotionAnalyzer_analyze r (analyzer s) ctx)\<rparr>"
| "session_step s (Decide rnd ctx emotion) =
     s\<lparr>decider := snd (make_decision rnd (decider s) ctx emotion)\<rparr>"

definition run_session :: "session \<Rightarrow> call list \<Rightarrow> session" where
  "run_session s calls = foldl session_step s calls"


text \<open>The size attributes keep their constructor values and the histories stay within them.\<close>

definition emotion_bounded :: "EmotionAnalyzer \<Rightarrow> bool" where
  "emotion_bounded ea = (history_size ea = 5 \<and> length (emotion_history ea) \<le> 5)"

definition command_bounded :: "DecisionMaker \<Rightarrow> bool" where
  "command_bounded dm = (max_history_size dm = 10 \<and> length (command_history dm) \<le> 10)"

definition session_bounded :: "session \<Rightarrow> bool" where
  "session_bounded s = (emotion_bounded (analyzer s) \<and> command_bounded (decider s))"

section \<open>Conditions and concrete inputs used by the theorems\<close>

text \<open>The keyword scoring of the emotion analyzer finds its trigger table (or has no
  configuration at all), so it does not raise.\<close>

definition triggers_configured :: "EmotionAnalyzer \<Rightarrow> bool" where
  "triggers_configured ea =
     (case ea_config ea of
        None \<Rightarrow> True
      | Some c \<Rightarrow> (case cfg_emotion c of None \<Rightarrow> False | Some em \<Rightarrow> triggers em \<noteq> None))"

text \<open>An analyzer whose configuration file failed to load.\<close>

definition fresh_analyzer :: EmotionAnalyzer where
  "fresh_analyzer = EmotionAnalyzer_init None"

text \<open>The context of a chat utterance (wo hen nan guo, "I am very sad") that matches the
  SAD keyword U+96BE U+8FC7.\<close>

definition example_sad_context :: analysis_context where
  "example_sad_context =
     \<lparr>original_text = [0x6211, 0x5F88, 0x96BE, 0x8FC7], ctx_keywords = [],
      possible_commands = [], possible_emotions = [emotion_value SAD],
      context_type = ascii ''chat'', context_confidence = 0.1,
      scene = None, has_obstacles = None, is_safe = None\<rparr>"

text \<open>
  A complete configuration: the defaults of \<open>config/settings.py\<close> (ranges, trigger table,
  minimum obstacle distance 1.0, danger keywords, response lists) and the three safety keys
  the decision maker reads besides them.
\<close>

definition example_config :: config where
  "example_config =
     \<lparr>cfg_emotion = Some
        \<lparr>speech_speed_range = Some [0.8, 1.3], volume_range = Some [0.8, 1.2],
         pitch_range = Some [0.9, 1.2],
         triggers = Some
           [([0x9AD8, 0x5174], [[0x8868, 0x626C], [0x6210, 0x529F], [0x5E2E, 0x52A9]]),
            ([0x96BE, 0x8FC7], [[0x5931, 0x8D25], [0x9053, 0x6B49], [0x79BB, 0x522B]]),
            ([0x751F, 0x6C14], [[0x6279, 0x8BC4], [0x6253, 0x6270], [0x4E0D, 0x5C0A, 0x91CD]]),
            ([0x60CA, 0x8BB6], [[0x610F, 0x5916], [0x7A81, 0x7136], [0x7279, 0x6B8A]])]\<rparr>,
      cfg_safety = Some
        \<lparr>min_obstacle_distance = Some 1.0,
         cfg_danger_keywords = Some
           [[0x649E], [0x8DF3], [0x6454], [0x6253], [0x8E22], [0x4F24, 0x5BB3],
            [0x5371, 0x9669], [0x7834, 0x574F], [0x635F, 0x574F]],
         cfg_restricted_areas = Some [[0x53A8, 0x623F]],
         max_speed = Some 2.0,
         required_checks = Some
           [ascii ''distance'', ascii ''speed'', ascii ''obstacles'', ascii ''area'']\<rparr>,
      cfg_responses = Some
        [([0x95EE, 0x5019], [[0x4F60, 0x597D], [0x65E9, 0x4E0A, 0x597D], [0x4E0B, 0x5348, 0x597D],
                            [0x665A, 0x4E0A, 0x597D]]),
         ([0x544A, 0x522B], [[0x518D, 0x89C1], [0x62DC, 0x62DC], [0x4E0B, 0x6B21, 0x89C1],
                            [0x56DE, 0x5934, 0x89C1]]),
         ([0x80AF, 0x5B9A], [[0x597D, 0x7684], [0x6CA1, 0x95EE, 0x9898], [0x53EF, 0x4EE5],
                            [0x5F53, 0x7136]]),
         ([0x5426, 0x5B9A], [[0x62B1, 0x6B49], [0x4E0D, 0x884C], [0x4E0D, 0x53EF, 0x4EE5],
                            [0x6050, 0x6015, 0x4E0D, 0x884C]])]\<rparr>"

text \<open>Every random draw is 0.\<close>

definition no_random :: "nat \<Rightarrow> nat" where
  "no_random i = 0"

text \<open>What the context analyzer makes of the utterance U+8DF3 U+821E (tiao wu, "dance"),
  segmented as one verb, without a scene.\<close>

definition dance_context :: analysis_context where
  "dance_context =
     ContextAnalyzer_analyze (Some example_config)
       (Some [([0x8DF3, 0x821E], ascii ''v'')]) [0x8DF3, 0x821E] None"

text \<open>The result \<open>analyze\<close> returns for the emotion CALM with its table parameters.\<close>

definition calm_result :: emotion_result where
  "calm_result =
     \<lparr>emotion_type = emotion_value CALM, params = get_emotion_params CALM,
      history = [emotion_value CALM], confidence = 0.5\<rparr>"

text \<open>The utterance U+8DF3 U+8FC7 U+6765 (tiao guo lai, "jump over here"), two verbs, without
  a scene.\<close>

definition jump_context :: analysis_context where
  "jump_context =
     ContextAnalyzer_analyze (Some example_config)
       (Some [([0x8DF3], ascii ''v''), ([0x8FC7, 0x6765], ascii ''v'')])
       [0x8DF3, 0x8FC7, 0x6765] None"

text \<open>The utterance U+8F6C U+8EAB U+505C U+4E0B (zhuan shen ting xia, "turn around, stop"),
  two verbs, without a scene.\<close>

definition turn_stop_context :: analysis_context where
  "turn_stop_context =
     ContextAnalyzer_analyze (Some example_config)
       (Some [([0x8F6C, 0x8EAB], ascii ''v''), ([0x505C, 0x4E0B], ascii ''v'')])
       [0x8F6C, 0x8EAB, 0x505C, 0x4E0B] None"

text \<open>The candidates of a call whose results are executable, in order.\<close>

definition committed_commands :: "pystr list \<Rightarrow> decision list \<Rightarrow> pystr list" where
  "committed_commands cmds results =
     map fst (filter (\<lambda>(c, d). should_execute d) (zip cmds results))"

text \<open>The utterance U+5FEB U+8DD1 (kuai pao, "run"), one verb, without a scene and with an
  obstacle 0.3 away.\<close>

definition run_context :: analysis_context where
  "run_context =
     ContextAnalyzer_analyze (Some example_config)
       (Some [([0x5FEB, 0x8DD1], ascii ''v'')]) [0x5FEB, 0x8DD1] None"

definition close_obstacle_scene :: scene_info where
  "close_obstacle_scene = empty_scene\<lparr>obstacles := Some [Obstacle (Some 0.3)]\<rparr>"

definition run_obstacle_context :: analysis_context where
  "run_obstacle_context =
     ContextAnalyzer_analyze (Some example_config)
       (Some [([0x5FEB, 0x8DD1], ascii ''v'')]) [0x5FEB, 0x8DD1] (Some close_obstacle_scene)"

text \<open>A decision maker that has just committed "run" twice.\<close>

definition ran_twice :: DecisionMaker where
  "ran_twice =
     (DecisionMaker_init (Some example_config))
       \<lparr>command_history := [command_value RUN, command_value RUN]\<rparr>"

text \<open>The utterance U+8BA8 U+538C U+2C U+8FC7 U+6765 (tao yan, guo lai: "I hate this, come
  here"), without a scene: it matches the ANGRY keyword "tao yan" and the COME keyword
  "guo lai". \<open>angry_result\<close> is what a new emotion analyzer returns for it.\<close>

definition angry_come_context :: analysis_context where
  "angry_come_context =
     ContextAnalyzer_analyze (Some example_config)
       (Some [([0x8BA8, 0x538C], ascii ''v''), ([0x2C], ascii ''x''),
              ([0x8FC7, 0x6765], ascii ''v'')])
       [0x8BA8, 0x538C, 0x2C, 0x8FC7, 0x6765] None"

definition angry_result :: emotion_result where
  "angry_result =
     fst (EmotionAnalyzer_analyze 0 (EmotionAnalyzer_init (Some example_config))
            angry_come_context)"

text \<open>The utterance U+8FC7 U+6765 U+5750 U+4E0B U+5403 U+996D U+559D U+6C34 U+7761 U+89C9
  (guo lai, zuo xia, chi fan, he shui, shui jiao: "come here, sit down, eat, drink, sleep"),
  segmented as five verbs, without a scene.\<close>

definition five_verbs_context :: analysis_context where
  "five_verbs_context =
     ContextAnalyzer_analyze (Some example_config)
       (Some [([0x8FC7, 0x6765], ascii ''v''), ([0x5750, 0x4E0B], ascii ''v''),
              ([0x5403, 0x996D], ascii ''v''), ([0x559D, 0x6C34], ascii ''v''),
              ([0x7761, 0x89C9], ascii ''v'')])
       [0x8FC7, 0x6765, 0x5750, 0x4E0B, 0x5403, 0x996D, 0x559D, 0x6C34, 0x7761, 0x89C9] None"

text \<open>The complete configuration with the pitch range set to [1.0, 1.2].\<close>

definition narrow_pitch_config :: config where
  "narrow_pitch_config =
     example_config\<lparr>cfg_emotion :=
       map_option (\<lambda>em. em\<lparr>pitch_range := Some [1.0, 1.2]\<rparr>) (cfg_emotion example_config)\<rparr>"

text \<open>Both bounds of a configured range are present and in order.\<close>

definition range_ok :: "real list \<Rightarrow> bool" where
  "range_ok ranges = (case ranges of lo # hi # _ \<Rightarrow> lo \<le> hi | _ \<Rightarrow> False)"

definition in_range :: "real list \<Rightarrow> real \<Rightarrow> bool" where
  "in_range ranges v = (case ranges of lo # hi # _ \<Rightarrow> lo \<le> v \<and> v \<le> hi | _ \<Rightarrow> False)"

text \<open>An analyzer without configuration whose current emotion is HAPPY.\<close>

definition happy_analyzer :: EmotionAnalyzer where
  "happy_analyzer =
     \<lparr>current_emotion = HAPPY, emotion_history = [HAPPY], history_size = 5, ea_config = None\<rparr>"

text \<open>A context whose candidate emotion U+751F U+6C14 (sheng qi, the configuration file's
  name for angry) is the value of no member of \<open>EmotionType\<close>.\<close>

definition unknown_emotion_context :: analysis_context where
  "unknown_emotion_context = example_sad_context\<lparr>possible_emotions := [[0x751F, 0x6C14]]\<rparr>"

text \<open>The complete configuration with a speech speed range of one element.\<close>

definition short_range_config :: config where
  "short_range_config =
     example_config\<lparr>cfg_emotion :=
       map_option (\<lambda>em. em\<lparr>speech_speed_range := Some [0.8]\<rparr>) (cfg_emotion example_config)\<rparr>"

text \<open>The minimum obstacle distance that \<open>_check_safety\<close> finds in the configuration.\<close>

definition configured_min_distance :: "config option \<Rightarrow> real option" where
  "configured_min_distance cfg =
     (case cfg of
        None \<Rightarrow> None
      | Some c \<Rightarrow> (case cfg_safety c of None \<Rightarrow> None | Some s \<Rightarrow> min_obstacle_distance s))"

text \<open>The obstacle has a distance, and it is below the minimum.\<close>

definition below_minimum :: "real \<Rightarrow> obstacle \<Rightarrow> bool" where
  "below_minimum m ob = (case ob of Obstacle (Some d) \<Rightarrow> d < m | _ \<Rightarrow> False)"

text \<open>The greeting U+4F60 U+597D (ni hao, "hello") next to an obstacle 0.3 away.\<close>

definition hello_obstacle_context :: analysis_context where
  "hello_obstacle_context =
     ContextAnalyzer_analyze (Some example_config)
       (Some [([0x4F60, 0x597D], ascii ''l'')]) [0x4F60, 0x597D] (Some close_obstacle_scene)"

text \<open>The context of the sad utterance with the candidate HAPPY instead, and the calls of a
  session with five such analyses and five decisions on "turn around, stop", which fill
  both histories.\<close>

definition happy_context :: analysis_context where
  "happy_context = example_sad_context\<lparr>possible_emotions := [emotion_value HAPPY]\<rparr>"

definition busy_calls :: "call list" where
  "busy_calls =
     [Analyze 0 happy_context, Analyze 0 happy_context, Analyze 0 happy_context,
      Analyze 0 happy_context, Analyze 0 happy_context,
      Decide no_random turn_stop_context calm_result,
      Decide no_random turn_stop_context calm_result,
      Decide no_random turn_stop_context calm_result,
      Decide no_random turn_stop_context calm_result,
      Decide no_random turn_stop_context calm_result]"


section \<open>Bounded histories\<close>

lemma update_emotion_state_len:
  "length (emotion_history ea) \<le> history_size ea \<Longrightarrow>
   length (emotion_history (update_emotion_state ea e)) \<le> history_size ea"
  by (auto simp: update_emotion_state_def Let_def)

lemma update_emotion_state_size:
  "history_size (update_emotion_state ea e) = history_size ea"
  by (simp add: update_emotion_state_def Let_def)

lemma analyze_state:
  "snd (EmotionAnalyzer_analyze r ea ctx) = ea \<or>
   (\<exists>e. snd (EmotionAnalyzer_analyze r ea ctx) = update_emotion_state ea e)"
  by (auto simp: EmotionAnalyzer_analyze_def Let_def split: sum.splits prod.splits)

lemma update_command_history_len:
  "length (command_history dm) \<le> max_history_size dm \<Longrightarrow>
   length (command_history (update_command_history dm c)) \<le> max_history_size dm"
  by (auto simp: update_command_history_def Let_def)

lemma update_command_history_size:
  "max_history_size (update_command_history dm c) = max_history_size dm"
  by (simp add: update_command_history_def Let_def)

lemma process_command_state:
  "snd (process_command r dm c ctx e) = dm \<or>
   snd (process_command r dm c ctx e) = update_command_history dm c"
  by (auto simp: process_command_def Let_def split: sum.splits)

lemma analyze_bounded:
  "emotion_bounded ea \<Longrightarrow> emotion_bounded (snd (EmotionAnalyzer_analyze r ea ctx))"
  using analyze_state [of r ea ctx] update_emotion_state_len update_emotion_state_size
  unfolding emotion_bounded_def by metis

lemma process_command_bounded:
  "command_bounded dm \<Longrightarrow> command_bounded (snd (process_command r dm c ctx e))"
  using process_command_state [of r dm c ctx e] update_command_history_len
    update_command_history_size
  unfolding command_bounded_def by metis

lemma process_commands_bounded:
  "command_bounded dm \<Longrightarrow> command_bounded (snd (process_commands rnd i dm cs ctx e))"
proof (induction cs arbitrary: i dm)
  case Nil
  then show ?case by simp
next
  case (Cons c cs)
  have "command_bounded (snd (process_command (rnd i) dm c ctx e))"
    using Cons.prems by (rule process_command_bounded)
  from Cons.IH [OF this, of "Suc i"] show ?case
    by (auto split: prod.splits)
qed

lemma make_decision_bounded:
  "command_bounded dm \<Longrightarrow> command_bounded (snd (make_decision rnd dm ctx e))"
  using process_commands_bounded [of dm rnd 0 "possible_commands ctx" ctx e]
  by (auto simp: make_decision_def split: prod.splits)

lemma session_step_bounded:
  "session_bounded s \<Longrightarrow> session_bounded (session_step s c)"
  by (cases c) (simp_all add: session_bounded_def analyze_bounded make_decision_bounded)

lemma run_session_bounded:
  "session_bounded s \<Longrightarrow> session_bounded (run_session s calls)"
  unfolding run_session_def
  by (induction calls arbitrary: s) (simp_all add: session_step_bounded)

lemma new_session_bounded: "session_bounded (new_session loaded)"
  by (simp add: session_bounded_def new_session_def emotion_bounded_def command_bounded_def
      EmotionAnalyzer_init_def DecisionMaker_init_def Let_def split: option.splits)

lemma evict_oldest:
  "length h \<le> n \<Longrightarrow>
   (if length (h @ [x]) > n then tl (h @ [x]) else h @ [x])
     = drop (length (h @ [x]) - n) (h @ [x])"
proof (cases "length h < n")
  case True
  then show ?thesis by simp
next
  case False
  assume "length h \<le> n"
  with False have n: "length h = n" by simp
  have "drop (length (h @ [x]) - length h) (h @ [x]) = drop (Suc 0) (h @ [x])" by simp
  also have "\<dots> = tl (h @ [x])" by (simp only: drop_Suc drop_0)
  finally show ?thesis using n by simp
qed

section \<open>Emotion recognition with keyword candidates\<close>

lemma mapM_Cons_Inr:
  "mapM f (x # xs) = Inr ys \<Longrightarrow> \<exists>y ys'. ys = y # ys' \<and> f x = Inr y \<and> mapM f xs = Inr ys'"
  by (auto split: sum.splits)

lemma mapM_length: "mapM f xs = Inr ys \<Longrightarrow> length ys = length xs"
  by (induction xs arbitrary: ys) (auto split: sum.splits)

lemma mapM_all_Inr:
  "(\<And>x. x \<in> set xs \<Longrightarrow> \<exists>y. f x = Inr y) \<Longrightarrow> \<exists>ys. mapM f xs = Inr ys"
  by (induction xs) (fastforce split: sum.splits)+

lemma EmotionType_of_value: "EmotionType_of (emotion_value e) = Inr e"
  by (cases e) (simp_all add: EmotionType_of_def all_EmotionType_def)

lemma EmotionType_of_Inr: "EmotionType_of s = Inr e \<Longrightarrow> emotion_value e = s"
  by (auto simp: EmotionType_of_def find_Some_iff split: option.splits)

lemma add_score_length: "length d \<le> length (add_score d x)"
  by (induction d x rule: add_score.induct) auto

lemma add_scores_length: "length d \<le> length (add_scores d extra)"
  unfolding add_scores_def
proof (induction extra arbitrary: d)
  case Nil
  show ?case by simp
next
  case (Cons x extra)
  have "length d \<le> length (add_score d x)" by (rule add_score_length)
  also have "\<dots> \<le> length (foldl add_score (add_score d x) extra)" by (rule Cons.IH)
  finally show ?case by simp
qed

text \<open>With a candidate, the random draw is not consulted and the score dictionary, which
  holds all ten emotions, is never empty.\<close>

lemma recognize_emotion_candidate:
  assumes "possible_emotions ctx = first # rest"
  shows "recognize_emotion r ea ctx =
     (case mapM EmotionType_of (first # rest) of
        Inl e \<Rightarrow> Inl e
      | Inr candidates \<Rightarrow>
          (case mapM (\<lambda>emotion.
                   case calculate_keyword_score ea emotion (ctx_keywords ctx) of
                     Inl e \<Rightarrow> Inl e
                   | Inr score \<Rightarrow> Inr (emotion, score)) all_EmotionType of
             Inl e \<Rightarrow> Inl e
           | Inr keyword_scores \<Rightarrow>
               (let emotion_scores =
                      add_scores (add_scores (add_scores keyword_scores
                        (get_context_type_scores (context_type ctx)))
                        (calculate_history_scores ea))
                        (calculate_scene_scores (get_or (scene ctx) empty_scene))
                in Inr (hd candidates,
                        min 1 (max 0 (fold max (tl (map snd emotion_scores))
                                         (hd (map snd emotion_scores))
                                      / (real (length emotion_scores) * 4)))))))"
proof (cases "mapM EmotionType_of (first # rest)")
  case (Inl e)
  then show ?thesis using assms by (simp add: recognize_emotion_def)
next
  case (Inr candidates)
  from mapM_Cons_Inr [OF Inr] obtain c cs where cands: "candidates = c # cs" by blast
  show ?thesis
  proof (cases "mapM (\<lambda>emotion.
                   case calculate_keyword_score ea emotion (ctx_keywords ctx) of
                     Inl e \<Rightarrow> Inl e
                   | Inr score \<Rightarrow> Inr (emotion, score)) all_EmotionType")
    case (Inl e)
    then show ?thesis using assms Inr by (simp add: recognize_emotion_def)
  next
    case kw: (Inr keyword_scores)
    define emotion_scores where "emotion_scores =
        add_scores (add_scores (add_scores keyword_scores
                        (get_context_type_scores (context_type ctx)))
                        (calculate_history_scores ea))
                        (calculate_scene_scores (get_or (scene ctx) empty_scene))"
    have "length keyword_scores = 10"
      using mapM_length [OF kw] by (simp add: all_EmotionType_def)
    moreover have "length keyword_scores \<le> length emotion_scores"
      unfolding emotion_scores_def
      by (meson add_scores_length order_trans)
    ultimately have "map snd emotion_scores \<noteq> []" by auto
    then obtain v vs where vs: "map snd emotion_scores = v # vs"
      by (cases "map snd emotion_scores") auto
    show ?thesis
      using assms Inr kw cands vs
      by (simp add: recognize_emotion_def Let_def emotion_scores_def [symmetric])
  qed
qed

text \<open>
  C10. When the context carries at least one keyword-matched candidate emotion, the
  recognition step returns the same result for any two random draws, and so does the whole
  of \<open>analyze\<close>; an emotion it returns is the first candidate; and it does return one when
  the candidates are values of \<open>EmotionType\<close> and the keyword scoring finds its trigger
  table.
\<close>

theorem recognize_emotion_first_candidate:
  assumes "possible_emotions ctx = first # rest"
  shows "recognize_emotion r1 ea ctx = recognize_emotion r2 ea ctx \<and>
         EmotionAnalyzer_analyze r1 ea ctx = EmotionAnalyzer_analyze r2 ea ctx \<and>
         (\<forall>e c. recognize_emotion r1 ea ctx = Inr (e, c) \<longrightarrow> emotion_value e = first) \<and>
         (list_all (\<lambda>s. s \<in> set (map emotion_value all_EmotionType)) (first # rest) \<and>
          triggers_configured ea \<longrightarrow>
            (\<exists>e c. recognize_emotion r1 ea ctx = Inr (e, c) \<and> emotion_value e = first))"
proof -
  have same: "recognize_emotion r1 ea ctx = recognize_emotion r2 ea ctx"
    by (simp only: recognize_emotion_candidate [OF assms])
  then have same_analyze: "EmotionAnalyzer_analyze r1 ea ctx = EmotionAnalyzer_analyze r2 ea ctx"
    by (simp add: EmotionAnalyzer_analyze_def)
  have first: "emotion_value e = first" if "recognize_emotion r1 ea ctx = Inr (e, c)" for e c
  proof -
    from that obtain candidates where c: "mapM EmotionType_of (first # rest) = Inr candidates"
      and e: "e = hd candidates"
      unfolding recognize_emotion_candidate [OF assms]
      by (auto simp: Let_def split: sum.splits)
    from mapM_Cons_Inr [OF c] e have "EmotionType_of first = Inr e" by auto
    then show ?thesis by (rule EmotionType_of_Inr)
  qed
  have total: "\<exists>e c. recognize_emotion r1 ea ctx = Inr (e, c) \<and> emotion_value e = first"
    if valid: "list_all (\<lambda>s. s \<in> set (map emotion_value all_EmotionType)) (first # rest)"
      and cfg: "triggers_configured ea"
  proof -
    have "\<exists>ys. mapM EmotionType_of (first # rest) = Inr ys"
    proof (rule mapM_all_Inr)
      fix s assume "s \<in> set (first # rest)"
      with valid have "s \<in> set (map emotion_value all_EmotionType)"
        by (auto simp: list_all_iff)
      then show "\<exists>y. EmotionType_of s = Inr y"
        using EmotionType_of_value by auto
    qed
    then obtain candidates where c: "mapM EmotionType_of (first # rest) = Inr candidates" ..
    have "\<exists>ys. mapM (\<lambda>emotion.
                   case calculate_keyword_score ea emotion (ctx_keywords ctx) of
                     Inl e \<Rightarrow> Inl e
                   | Inr score \<Rightarrow> Inr (emotion, score)) all_EmotionType = Inr ys"
    proof (rule mapM_all_Inr)
      fix emotion
      have "\<exists>score. calculate_keyword_score ea emotion (ctx_keywords ctx) = Inr score"
        using cfg
        by (auto simp: calculate_keyword_score_def triggers_configured_def Let_def
            split: option.splits)
      then show "\<exists>y. (case calculate_keyword_score ea emotion (ctx_keywords ctx) of
                     Inl e \<Rightarrow> Inl e
                   | Inr score \<Rightarrow> Inr (emotion, score)) = Inr y"
        by auto
    qed
    then obtain ks where k: "mapM (\<lambda>emotion.
                   case calculate_keyword_score ea emotion (ctx_keywords ctx) of
                     Inl e \<Rightarrow> Inl e
                   | Inr score \<Rightarrow> Inr (emotion, score)) all_EmotionType = Inr ks" ..
    from c k obtain e conf where "recognize_emotion r1 ea ctx = Inr (e, conf)"
      unfolding recognize_emotion_candidate [OF assms] by (simp add: Let_def)
    with first show ?thesis by blast
  qed
  from same same_analyze first total show ?thesis by blast
qed

theorem recognize_emotion_first_candidate_witness:
  "possible_emotions example_sad_context = [emotion_value SAD] \<and>
   recognize_emotion 0 fresh_analyzer example_sad_context
     = recognize_emotion 1 fresh_analyzer example_sad_context \<and>
   EmotionAnalyzer_analyze 0 fresh_analyzer example_sad_context
     = EmotionAnalyzer_analyze 1 fresh_analyzer example_sad_context \<and>
   (\<exists>e c. recognize_emotion 0 fresh_analyzer example_sad_context = Inr (e, c) \<and>
          emotion_value e = emotion_value SAD)"
proof -
  have p: "possible_emotions example_sad_context = emotion_value SAD # []"
    by (simp add: example_sad_context_def)
  have v: "list_all (\<lambda>s. s \<in> set (map emotion_value all_EmotionType)) (emotion_value SAD # [])"
    by (simp add: all_EmotionType_def)
  have t: "triggers_configured fresh_analyzer"
    by (simp add: triggers_configured_def fresh_analyzer_def EmotionAnalyzer_init_def)
  from recognize_emotion_first_candidate [OF p, of 0 fresh_analyzer 1] p v t
  show ?thesis by blast
qed

section \<open>The safety gate and danger keywords\<close>

lemmas vocabulary_defs =
  ALL_VOCABULARY_def OBJECTS_def QUESTIONS_def GREETINGS_def ATTITUDES_def ADJECTIVES_def

lemmas context_analyzer_defs =
  ContextAnalyzer_analyze_def extract_keywords_def is_valid_word_def
  get_command_by_keywords_def get_emotion_by_keywords_def all_CommandType_def
  all_EmotionType_def analyze_context_type_def request_markers_def request_closings_def
  question_words_def greeting_words_def combine_scene_info_def check_safety_def
  scene_truthy_def empty_scene_def ascii_def

lemmas decision_maker_defs =
  DecisionMaker_init_def example_config_def check_command_safety_def CommandType_of_def
  all_CommandType_def needs_safety_check_def get_or_def unsafe_def safety_key_def
  speed_over_limit_def pass_safety_check_def empty_scene_def check_command_history_def
  last3_def update_command_history_def select_response_template_def
  is_template_suitable_def random_choice_def get_command_params_def mood_blocklist_def
  generate_reject_response_def reject_templates_def rejection_def ascii_def

lemma dance_keywords: "extract_keywords [[0x8DF3, 0x821E]] = []"
  by (simp add: extract_keywords_def is_valid_word_def vocabulary_defs)

lemma dance_commands: "get_command_by_keywords [0x8DF3, 0x821E] = [DANCE]"
  by (simp add: get_command_by_keywords_def all_CommandType_def)

lemma dance_emotions: "get_emotion_by_keywords [0x8DF3, 0x821E] = []"
  by (simp add: get_emotion_by_keywords_def all_EmotionType_def)

lemma dance_context_type:
  "analyze_context_type [0x8DF3, 0x821E] [[0x8DF3, 0x821E]] [ascii ''v''] [] [DANCE]
     = (ascii ''command'', 7 / 10)"
  by (simp add: analyze_context_type_def request_markers_def request_closings_def ascii_def
      Let_def)

lemma dance_context_eq:
  "dance_context =
     \<lparr>original_text = [0x8DF3, 0x821E], ctx_keywords = [],
      possible_commands = [[0x8DF3, 0x821E]], possible_emotions = [],
      context_type = ascii ''command'', context_confidence = 7 / 10,
      scene = None, has_obstacles = None, is_safe = None\<rparr>"
  by (simp add: dance_context_def ContextAnalyzer_analyze_def dance_keywords dance_commands
      dance_emotions dance_context_type combine_scene_info_def)

lemma process_command_unsafe:
  "\<not> sa_is_safe (check_command_safety dm c ctx) \<Longrightarrow>
   \<not> should_execute (fst (process_command r dm c ctx e)) \<and>
   snd (process_command r dm c ctx e) = dm"
  by (simp add: process_command_def Let_def rejection_def)

lemma check_command_safety_danger:
  assumes "word \<in> set (danger_keywords dm)" "str_in word (original_text ctx)"
    and "\<forall>ct. CommandType_of c = Inr ct \<longrightarrow> needs_safety_check ct"
  shows "\<not> sa_is_safe (check_command_safety dm c ctx)"
proof -
  from assms(1,2)
  have "filter (\<lambda>w. str_in w (original_text ctx)) (danger_keywords dm) \<noteq> []"
    by (auto simp: filter_empty_conv)
  with assms(3) show ?thesis
    by (auto simp: check_command_safety_def unsafe_def Let_def split: sum.splits)
qed

lemma process_commands_unsafe:
  "\<forall>c \<in> set cs. \<not> sa_is_safe (check_command_safety dm c ctx) \<Longrightarrow>
   snd (process_commands rnd i dm cs ctx e) = dm \<and>
   length (fst (process_commands rnd i dm cs ctx e)) = length cs \<and>
   list_all (\<lambda>d. \<not> should_execute d) (fst (process_commands rnd i dm cs ctx e))"
proof (induction cs arbitrary: i)
  case Nil
  show ?case by simp
next
  case (Cons c cs)
  from Cons.prems have c: "\<not> sa_is_safe (check_command_safety dm c ctx)" by simp
  obtain d where d: "process_command (rnd i) dm c ctx e = (d, dm)" "\<not> should_execute d"
    using process_command_unsafe [OF c, of "rnd i" e]
    by (cases "process_command (rnd i) dm c ctx e") auto
  from Cons.prems have "\<forall>c \<in> set cs. \<not> sa_is_safe (check_command_safety dm c ctx)" by simp
  from Cons.IH [OF this, of "Suc i"] d show ?case
    by (auto split: prod.splits)
qed

lemma select_best_none_executable:
  "results \<noteq> [] \<Longrightarrow> list_all (\<lambda>d. \<not> should_execute d) results \<Longrightarrow>
   \<not> should_execute (select_best_command_result results)"
proof -
  assume ne: "results \<noteq> []" and all: "list_all (\<lambda>d. \<not> should_execute d) results"
  from all have "filter should_execute results = []"
    by (auto simp: filter_empty_conv list_all_iff)
  with ne all show ?thesis
    by (cases results) (simp_all add: select_best_command_result_def)
qed

text \<open>
  C1, as the code has it. The text contains a configured danger keyword, the intent is
  \<open>command\<close>, there are candidates, and every candidate is a command whose type asks for
  the safety check: then the decision is a rejection and the command history is unchanged,
  whatever the scene and the emotion.
\<close>

theorem danger_keyword_rejected:
  assumes "word \<in> set (danger_keywords dm)" and "str_in word (original_text ctx)"
    and "context_type ctx = ascii ''command''" and "possible_commands ctx \<noteq> []"
    and "\<forall>c \<in> set (possible_commands ctx). \<forall>ct. CommandType_of c = Inr ct \<longrightarrow> needs_safety_check ct"
  shows "\<not> should_execute (fst (make_decision rnd dm ctx emotion)) \<and>
         snd (make_decision rnd dm ctx emotion) = dm"
proof -
  have "\<forall>c \<in> set (possible_commands ctx). \<not> sa_is_safe (check_command_safety dm c ctx)"
    using assms(1,2,5) check_command_safety_danger by blast
  from process_commands_unsafe [OF this, of rnd 0 emotion]
  have st: "snd (process_commands rnd 0 dm (possible_commands ctx) ctx emotion) = dm"
    and len: "length (fst (process_commands rnd 0 dm (possible_commands ctx) ctx emotion))
                = length (possible_commands ctx)"
    and rej: "list_all (\<lambda>d. \<not> should_execute d)
                (fst (process_commands rnd 0 dm (possible_commands ctx) ctx emotion))"
    by simp_all
  from len assms(4)
  have "fst (process_commands rnd 0 dm (possible_commands ctx) ctx emotion) \<noteq> []" by auto
  from select_best_none_executable [OF this rej] st assms(3,4) show ?thesis
    by (auto simp: make_decision_def split: prod.splits)
qed

text \<open>
  The claim as written fails: "tiao wu" contains the danger keyword U+8DF3 and is a command,
  but DANCE is configured without the safety check, so the decision is to dance.
\<close>

theorem danger_keyword_counterexample:
  "[0x8DF3] \<in> set (danger_keywords (DecisionMaker_init (Some example_config))) \<and>
   str_in [0x8DF3] (original_text dance_context) \<and>
   context_type dance_context = ascii ''command'' \<and>
   possible_commands dance_context = [command_value DANCE] \<and>
   should_execute
     (fst (make_decision no_random (DecisionMaker_init (Some example_config))
             dance_context calm_result)) \<and>
   action_type
     (fst (make_decision no_random (DecisionMaker_init (Some example_config))
             dance_context calm_result)) = Some ''dance''"
  by (simp add: dance_context_eq make_decision_def process_command_def
      select_best_command_result_def calm_result_def no_random_def decision_maker_defs Let_def)

lemma jump_context_eq:
  "jump_context =
     \<lparr>original_text = [0x8DF3, 0x8FC7, 0x6765], ctx_keywords = [],
      possible_commands = [command_value COME], possible_emotions = [],
      context_type = ascii ''command'', context_confidence = 8 / 10,
      scene = None, has_obstacles = None, is_safe = None\<rparr>"
proof -
  have k: "extract_keywords [[0x8DF3], [0x8FC7, 0x6765]] = []"
    by (simp add: extract_keywords_def is_valid_word_def vocabulary_defs)
  have c: "get_command_by_keywords [0x8DF3, 0x8FC7, 0x6765] = [COME]"
    by (simp add: get_command_by_keywords_def all_CommandType_def)
  have e: "get_emotion_by_keywords [0x8DF3, 0x8FC7, 0x6765] = []"
    by (simp add: get_emotion_by_keywords_def all_EmotionType_def)
  have t: "analyze_context_type [0x8DF3, 0x8FC7, 0x6765] [[0x8DF3], [0x8FC7, 0x6765]]
             [ascii ''v'', ascii ''v''] [] [COME] = (ascii ''command'', 8 / 10)"
    by (simp add: analyze_context_type_def request_markers_def request_closings_def ascii_def
        Let_def)
  show ?thesis
    by (simp add: jump_context_def ContextAnalyzer_analyze_def k c e t combine_scene_info_def)
qed

theorem danger_keyword_rejected_witness:
  "[0x8DF3] \<in> set (danger_keywords (DecisionMaker_init (Some example_config))) \<and>
   str_in [0x8DF3] (original_text jump_context) \<and>
   possible_commands jump_context = [command_value COME] \<and>
   \<not> should_execute
      (fst (make_decision no_random (DecisionMaker_init (Some example_config))
              jump_context calm_result))"
proof -
  let ?dm = "DecisionMaker_init (Some example_config)"
  have 1: "[0x8DF3] \<in> set (danger_keywords ?dm)"
    by (simp add: DecisionMaker_init_def example_config_def)
  have 2: "str_in [0x8DF3] (original_text jump_context)"
    by (simp add: jump_context_eq)
  have 3: "context_type jump_context = ascii ''command''"
    by (simp add: jump_context_eq)
  have 4: "possible_commands jump_context \<noteq> []"
    by (simp add: jump_context_eq)
  have 5: "\<forall>c \<in> set (possible_commands jump_context).
             \<forall>ct. CommandType_of c = Inr ct \<longrightarrow> needs_safety_check ct"
    by (simp add: jump_context_eq CommandType_of_def all_CommandType_def
        needs_safety_check_def)
  from danger_keyword_rejected [OF 1 2 3 4 5, of no_random calm_result] 1 2
  show ?thesis by (simp add: jump_context_eq)
qed

section \<open>Commits to the command history\<close>

lemma response_templates_nonempty: "cp_response_templates (COMMAND_PARAMS ct) \<noteq> []"
  by (cases ct) simp_all

lemma process_command_cases:
  "(\<not> should_execute (fst (process_command r dm c ctx e)) \<and>
      snd (process_command r dm c ctx e) = dm) \<or>
   (should_execute (fst (process_command r dm c ctx e)) \<and>
      snd (process_command r dm c ctx e) = update_command_history dm c \<and>
      (\<exists>ct. CommandType_of c = Inr ct \<and>
         action_type (fst (process_command r dm c ctx e))
           = Some (cp_action (get_command_params ct))))"
  using response_templates_nonempty
  by (auto simp: process_command_def Let_def rejection_def select_response_template_def
      is_template_suitable_def random_choice_def get_command_params_def split: sum.splits)

lemma process_commands_commits:
  "snd (process_commands rnd i dm cs ctx e)
     = foldl update_command_history dm
         (committed_commands cs (fst (process_commands rnd i dm cs ctx e))) \<and>
   length (fst (process_commands rnd i dm cs ctx e)) = length cs"
proof (induction cs arbitrary: i dm)
  case Nil
  show ?case by (simp add: committed_commands_def)
next
  case (Cons c cs)
  obtain d dm1 where d: "process_command (rnd i) dm c ctx e = (d, dm1)"
    by (cases "process_command (rnd i) dm c ctx e")
  obtain ds dm2 where ds: "process_commands rnd (Suc i) dm1 cs ctx e = (ds, dm2)"
    by (cases "process_commands rnd (Suc i) dm1 cs ctx e")
  from Cons.IH [of "Suc i" dm1] ds
  have ih: "dm2 = foldl update_command_history dm1 (committed_commands cs ds)"
    "length ds = length cs" by simp_all
  from process_command_cases [of "rnd i" dm c ctx e] d
  have "(\<not> should_execute d \<and> dm1 = dm) \<or>
        (should_execute d \<and> dm1 = update_command_history dm c)" by auto
  with ih d ds show ?case
    by (auto simp: committed_commands_def)
qed








lemma turn_stop_context_eq:
  "turn_stop_context =
     \<lparr>original_text = [0x8F6C, 0x8EAB, 0x505C, 0x4E0B], ctx_keywords = [],
      possible_commands = [command_value TURN, command_value STOP], possible_emotions = [],
      context_type = ascii ''command'', context_confidence = 8 / 10,
      scene = None, has_obstacles = None, is_safe = None\<rparr>"
proof -
  have k: "extract_keywords [[0x8F6C, 0x8EAB], [0x505C, 0x4E0B]] = []"
    by (simp add: extract_keywords_def is_valid_word_def vocabulary_defs)
  have c: "get_command_by_keywords [0x8F6C, 0x8EAB, 0x505C, 0x4E0B] = [TURN, STOP]"
    by (simp add: get_command_by_keywords_def all_CommandType_def)
  have e: "get_emotion_by_keywords [0x8F6C, 0x8EAB, 0x505C, 0x4E0B] = []"
    by (simp add: get_emotion_by_keywords_def all_EmotionType_def)
  have t: "analyze_context_type [0x8F6C, 0x8EAB, 0x505C, 0x4E0B]
             [[0x8F6C, 0x8EAB], [0x505C, 0x4E0B]]
             [ascii ''v'', ascii ''v''] [] [TURN, STOP] = (ascii ''command'', 8 / 10)"
    by (simp add: analyze_context_type_def request_markers_def request_closings_def ascii_def
        Let_def)
  show ?thesis
    by (simp add: turn_stop_context_def ContextAnalyzer_analyze_def k c e t
        combine_scene_info_def)
qed



section \<open>The repetition gate\<close>

lemma startswith_append: "startswith (w @ ys) w"
  by (induction w) auto

lemma str_in_prefix: "str_in w (w @ ys)"
  using startswith_append [of w ys] by (cases "w @ ys") auto

lemma str_in_append: "str_in w (xs @ w @ ys)"
  by (induction xs) (auto simp: str_in_prefix)

lemma str_in_suffix: "str_in w (xs @ w)"
  using str_in_append [of w xs "[]"] by simp

lemma mod5_cases: "r mod 5 = 0 \<or> r mod 5 = 1 \<or> r mod 5 = 2 \<or> r mod 5 = 3 \<or> r mod (5::nat) = 4"
  by arith

text \<open>Every phrasing of a refusal ends with the reason.\<close>

lemma reject_response_has_reason: "str_in reason (generate_reject_response r command reason)"
proof -
  have "\<exists>pre. generate_reject_response r command reason = pre @ reason"
    using mod5_cases [of r]
    by (auto simp: generate_reject_response_def reject_templates_def)
  then show ?thesis using str_in_suffix by auto
qed

lemma safety_key_history: "safety_key (dm\<lparr>command_history := h\<rparr>) key = safety_key dm key"
  by (simp add: safety_key_def)

lemma speed_over_limit_history:
  "speed_over_limit (dm\<lparr>command_history := h\<rparr>) sc = speed_over_limit dm sc"
  by (simp only: speed_over_limit_def safety_key_history)

lemma pass_safety_check_history:
  "pass_safety_check (dm\<lparr>command_history := h\<rparr>) check sc = pass_safety_check dm check sc"
  by (simp add: pass_safety_check_def safety_key_history cong: if_cong)

lemma check_command_safety_history:
  "check_command_safety (dm\<lparr>command_history := h\<rparr>) c ctx = check_command_safety dm c ctx"
  by (simp add: check_command_safety_def safety_key_history speed_over_limit_history
      pass_safety_check_history cong: if_cong sum.case_cong option.case_cong)

lemma safe_command_valid:
  "sa_is_safe (check_command_safety dm c ctx) \<Longrightarrow> \<exists>ct. CommandType_of c = Inr ct"
  by (cases "CommandType_of c") (auto simp: check_command_safety_def unsafe_def)

lemma process_command_executes:
  assumes "sa_is_safe (check_command_safety dm c ctx)"
    and "emotion_type e \<notin> set mood_blocklist" and "check_command_history dm c"
  shows "should_execute (fst (process_command r dm c ctx e)) \<and>
         action_type (fst (process_command r dm c ctx e)) \<noteq> None \<and>
         snd (process_command r dm c ctx e) = update_command_history dm c"
  using assms safe_command_valid [OF assms(1)] response_templates_nonempty
  by (auto simp: process_command_def Let_def select_response_template_def
      is_template_suitable_def random_choice_def get_command_params_def)

lemma process_command_too_frequent:
  assumes "sa_is_safe (check_command_safety dm c ctx)"
    and "emotion_type e \<notin> set mood_blocklist" and "\<not> check_command_history dm c"
  shows "process_command r dm c ctx e
           = (rejection (generate_reject_response r c reason_too_frequent) 0.5, dm)"
  using assms by (simp add: process_command_def Let_def)

lemma process_command_repeated:
  assumes "\<not> check_command_history dm c"
  shows "\<not> should_execute (fst (process_command r dm c ctx e)) \<and>
         snd (process_command r dm c ctx e) = dm"
  using assms by (simp add: process_command_def Let_def rejection_def)

lemma make_decision_single:
  assumes "context_type ctx = ascii ''command''" and "possible_commands ctx = [c]"
  shows "make_decision rnd dm ctx e = process_command (rnd 0) dm c ctx e"
proof -
  obtain d dm' where d: "process_command (rnd 0) dm c ctx e = (d, dm')"
    by (cases "process_command (rnd 0) dm c ctx e")
  have "select_best_command_result [d] = d"
    by (simp add: select_best_command_result_def)
  with assms d show ?thesis by (simp add: make_decision_def)
qed

text \<open>
  C7, as the code has it. A command that occurs at least twice among the last three
  entries of the command history is rejected at its next attempt and nothing is committed;
  the reason is "too frequently" when the attempt passes the safety gate and the mood
  check, which come first. In particular, on a decision maker with an empty history of
  capacity at least two, a single-candidate command that passes both gates is Executable
  on the first and second call and Rejected with that reason on the third.
\<close>

theorem repeated_command_rejected:
  "(2 \<le> count_list (last3 (command_history dm)) command \<longrightarrow>
      \<not> should_execute (fst (process_command r dm command ctx emotion)) \<and>
      snd (process_command r dm command ctx emotion) = dm \<and>
      (sa_is_safe (check_command_safety dm command ctx) \<and>
       emotion_type emotion \<notin> set mood_blocklist \<longrightarrow>
         (\<exists>t. reject_reason (fst (process_command r dm command ctx emotion)) = Some t \<and>
              str_in reason_too_frequent t))) \<and>
   (command_history dm0 = [] \<and> 2 \<le> max_history_size dm0 \<and>
    context_type ctx0 = ascii ''command'' \<and> possible_commands ctx0 = [c0] \<and>
    sa_is_safe (check_command_safety dm0 c0 ctx0) \<and>
    emotion_type e1 \<notin> set mood_blocklist \<and> emotion_type e2 \<notin> set mood_blocklist \<and>
    emotion_type e3 \<notin> set mood_blocklist \<longrightarrow>
      should_execute (fst (make_decision rnd1 dm0 ctx0 e1)) \<and>
      action_type (fst (make_decision rnd1 dm0 ctx0 e1)) \<noteq> None \<and>
      should_execute
        (fst (make_decision rnd2 (snd (make_decision rnd1 dm0 ctx0 e1)) ctx0 e2)) \<and>
      action_type
        (fst (make_decision rnd2 (snd (make_decision rnd1 dm0 ctx0 e1)) ctx0 e2)) \<noteq> None \<and>
      \<not> should_execute
        (fst (make_decision rnd3
                (snd (make_decision rnd2 (snd (make_decision rnd1 dm0 ctx0 e1)) ctx0 e2))
                ctx0 e3)) \<and>
      (\<exists>t. reject_reason
              (fst (make_decision rnd3
                      (snd (make_decision rnd2 (snd (make_decision rnd1 dm0 ctx0 e1)) ctx0 e2))
                      ctx0 e3)) = Some t \<and>
           str_in reason_too_frequent t))"
proof -
  have gate: "\<not> should_execute (fst (process_command r dm command ctx emotion)) \<and>
      snd (process_command r dm command ctx emotion) = dm \<and>
      (sa_is_safe (check_command_safety dm command ctx) \<and>
       emotion_type emotion \<notin> set mood_blocklist \<longrightarrow>
         (\<exists>t. reject_reason (fst (process_command r dm command ctx emotion)) = Some t \<and>
              str_in reason_too_frequent t))"
    if "2 \<le> count_list (last3 (command_history dm)) command"
  proof -
    from that have h: "\<not> check_command_history dm command"
      by (simp add: check_command_history_def Let_def)
    have "\<exists>t. reject_reason (fst (process_command r dm command ctx emotion)) = Some t \<and>
              str_in reason_too_frequent t"
      if "sa_is_safe (check_command_safety dm command ctx)"
        "emotion_type emotion \<notin> set mood_blocklist"
      using process_command_too_frequent [OF that h, of r]
        reject_response_has_reason [of reason_too_frequent r command]
      by (simp add: rejection_def)
    with process_command_repeated [OF h, of r ctx emotion] show ?thesis by blast
  qed
  have scenario:
    "should_execute (fst (make_decision rnd1 dm0 ctx0 e1)) \<and>
      action_type (fst (make_decision rnd1 dm0 ctx0 e1)) \<noteq> None \<and>
      should_execute
        (fst (make_decision rnd2 (snd (make_decision rnd1 dm0 ctx0 e1)) ctx0 e2)) \<and>
      action_type
        (fst (make_decision rnd2 (snd (make_decision rnd1 dm0 ctx0 e1)) ctx0 e2)) \<noteq> None \<and>
      \<not> should_execute
        (fst (make_decision rnd3
                (snd (make_decision rnd2 (snd (make_decision rnd1 dm0 ctx0 e1)) ctx0 e2))
                ctx0 e3)) \<and>
      (\<exists>t. reject_reason
              (fst (make_decision rnd3
                      (snd (make_decision rnd2 (snd (make_decision rnd1 dm0 ctx0 e1)) ctx0 e2))
                      ctx0 e3)) = Some t \<and>
           str_in reason_too_frequent t)"
    if empty: "command_history dm0 = []" and cap: "2 \<le> max_history_size dm0"
      and ct: "context_type ctx0 = ascii ''command''" and pc: "possible_commands ctx0 = [c0]"
      and safe: "sa_is_safe (check_command_safety dm0 c0 ctx0)"
      and m1: "emotion_type e1 \<notin> set mood_blocklist"
      and m2: "emotion_type e2 \<notin> set mood_blocklist"
      and m3: "emotion_type e3 \<notin> set mood_blocklist"
  proof -
    define dm1 where "dm1 = dm0\<lparr>command_history := [c0]\<rparr>"
    define dm2 where "dm2 = dm0\<lparr>command_history := [c0, c0]\<rparr>"
    have u1: "update_command_history dm0 c0 = dm1"
      using empty cap by (simp add: update_command_history_def dm1_def)
    have u2: "update_command_history dm1 c0 = dm2"
      using cap by (simp add: update_command_history_def dm1_def dm2_def)
    have s1: "sa_is_safe (check_command_safety dm1 c0 ctx0)"
      and s2: "sa_is_safe (check_command_safety dm2 c0 ctx0)"
      using safe by (simp_all add: dm1_def dm2_def check_command_safety_history)
    have h0: "check_command_history dm0 c0"
      using empty by (simp add: check_command_history_def last3_def)
    have h1: "check_command_history dm1 c0"
      by (simp add: check_command_history_def last3_def dm1_def)
    have h2: "\<not> check_command_history dm2 c0"
      by (simp add: check_command_history_def last3_def dm2_def)
    have d1: "make_decision rnd1 dm0 ctx0 e1 = process_command (rnd1 0) dm0 c0 ctx0 e1"
      by (rule make_decision_single [OF ct pc])
    have d2: "make_decision rnd2 dm1 ctx0 e2 = process_command (rnd2 0) dm1 c0 ctx0 e2"
      by (rule make_decision_single [OF ct pc])
    have d3: "make_decision rnd3 dm2 ctx0 e3 = process_command (rnd3 0) dm2 c0 ctx0 e3"
      by (rule make_decision_single [OF ct pc])
    note p1 = process_command_executes [OF safe m1 h0, of "rnd1 0", folded d1, unfolded u1]
    note p2 = process_command_executes [OF s1 m2 h1, of "rnd2 0", folded d2, unfolded u2]
    note p3 = process_command_too_frequent [OF s2 m3 h2, of "rnd3 0", folded d3]
    from p1 p2 p3 reject_response_has_reason [of reason_too_frequent "rnd3 0" c0]
    show ?thesis by (simp add: rejection_def)
  qed
  from gate scenario show ?thesis by blast
qed

lemma run_context_eq:
  "run_context =
     \<lparr>original_text = [0x5FEB, 0x8DD1], ctx_keywords = [],
      possible_commands = [command_value RUN], possible_emotions = [],
      context_type = ascii ''command'', context_confidence = 7 / 10,
      scene = None, has_obstacles = None, is_safe = None\<rparr>"
proof -
  have k: "extract_keywords [[0x5FEB, 0x8DD1]] = []"
    by (simp add: extract_keywords_def is_valid_word_def vocabulary_defs)
  have c: "get_command_by_keywords [0x5FEB, 0x8DD1] = [RUN]"
    by (simp add: get_command_by_keywords_def all_CommandType_def)
  have e: "get_emotion_by_keywords [0x5FEB, 0x8DD1] = []"
    by (simp add: get_emotion_by_keywords_def all_EmotionType_def)
  have t: "analyze_context_type [0x5FEB, 0x8DD1] [[0x5FEB, 0x8DD1]] [ascii ''v''] [] [RUN]
             = (ascii ''command'', 7 / 10)"
    by (simp add: analyze_context_type_def request_markers_def request_closings_def ascii_def
        Let_def)
  show ?thesis
    by (simp add: run_context_def ContextAnalyzer_analyze_def k c e t combine_scene_info_def)
qed

lemma run_obstacle_context_eq:
  "run_obstacle_context =
     \<lparr>original_text = [0x5FEB, 0x8DD1], ctx_keywords = [],
      possible_commands = [command_value RUN], possible_emotions = [],
      context_type = ascii ''command'', context_confidence = 7 / 10,
      scene = Some close_obstacle_scene, has_obstacles = Some True, is_safe = Some False\<rparr>"
proof -
  have k: "extract_keywords [[0x5FEB, 0x8DD1]] = []"
    by (simp add: extract_keywords_def is_valid_word_def vocabulary_defs)
  have c: "get_command_by_keywords [0x5FEB, 0x8DD1] = [RUN]"
    by (simp add: get_command_by_keywords_def all_CommandType_def)
  have e: "get_emotion_by_keywords [0x5FEB, 0x8DD1] = []"
    by (simp add: get_emotion_by_keywords_def all_EmotionType_def)
  have t: "analyze_context_type [0x5FEB, 0x8DD1] [[0x5FEB, 0x8DD1]] [ascii ''v''] [] [RUN]
             = (ascii ''command'', 7 / 10)"
    by (simp add: analyze_context_type_def request_markers_def request_closings_def ascii_def
        Let_def)
  have s: "scene_truthy close_obstacle_scene"
    by (simp add: scene_truthy_def close_obstacle_scene_def empty_scene_def)
  have o: "obstacles close_obstacle_scene = Some [Obstacle (Some 0.3)]"
    by (simp add: close_obstacle_scene_def)
  show ?thesis
    by (simp add: run_obstacle_context_def ContextAnalyzer_analyze_def k c e t
        combine_scene_info_def s o check_safety_def example_config_def)
qed

text \<open>
  The claim as written fails on the reason: after two commits of "run", a third attempt
  next to a close obstacle is refused for the unsafe environment, not for repetition.
\<close>

theorem repeated_command_counterexample:
  "2 \<le> count_list (last3 (command_history ran_twice)) (command_value RUN) \<and>
   reject_reason (fst (process_command 0 ran_twice (command_value RUN) run_obstacle_context
                         calm_result))
     = Some ([0x5BF9, 0x4E0D, 0x8D77, 0x2C] @ reason_environment_unsafe) \<and>
   \<not> str_in reason_too_frequent ([0x5BF9, 0x4E0D, 0x8D77, 0x2C] @ reason_environment_unsafe)"
  by (simp add: ran_twice_def run_obstacle_context_eq process_command_def calm_result_def
      decision_maker_defs reason_environment_unsafe_def reason_too_frequent_def Let_def)

theorem repeated_command_rejected_witness:
  "\<not> should_execute (fst (process_command 0 ran_twice (command_value RUN) run_context
                            calm_result)) \<and>
   (\<exists>t. reject_reason (fst (process_command 0 ran_twice (command_value RUN) run_context
                               calm_result)) = Some t \<and>
        str_in reason_too_frequent t) \<and>
   should_execute
     (fst (make_decision no_random (DecisionMaker_init (Some example_config)) run_context
             calm_result)) \<and>
   \<not> should_execute
     (fst (make_decision no_random
             (snd (make_decision no_random
                     (snd (make_decision no_random (DecisionMaker_init (Some example_config))
                             run_context calm_result))
                     run_context calm_result))
             run_context calm_result))"
proof -
  let ?dm0 = "DecisionMaker_init (Some example_config)"
  have a: "2 \<le> count_list (last3 (command_history ran_twice)) (command_value RUN)"
    by (simp add: ran_twice_def last3_def)
  have b: "sa_is_safe (check_command_safety ran_twice (command_value RUN) run_context)"
    by (simp add: ran_twice_def run_context_eq decision_maker_defs Let_def)
  have c: "emotion_type calm_result \<notin> set mood_blocklist"
    by (simp add: calm_result_def mood_blocklist_def)
  have d: "command_history ?dm0 = [] \<and> 2 \<le> max_history_size ?dm0"
    by (simp add: DecisionMaker_init_def example_config_def)
  have e: "context_type run_context = ascii ''command'' \<and>
           possible_commands run_context = [command_value RUN]"
    by (simp add: run_context_eq)
  have f: "sa_is_safe (check_command_safety ?dm0 (command_value RUN) run_context)"
    by (simp add: run_context_eq decision_maker_defs Let_def)
  from repeated_command_rejected [of ran_twice "command_value RUN" 0 run_context calm_result
      ?dm0 run_context "command_value RUN" calm_result calm_result calm_result
      no_random no_random no_random] a b c d e f
  show ?thesis by blast
qed

section \<open>The mood check\<close>

lemmas emotion_analyzer_defs =
  EmotionAnalyzer_analyze_def EmotionAnalyzer_init_def recognize_emotion_def
  EmotionType_of_def all_EmotionType_def calculate_keyword_score_def
  get_context_type_scores_def add_scores_def calculate_history_scores_def
  calculate_scene_scores_def update_emotion_state_def adjust_params_def clamp_range_def
  get_emotion_params_def analyze_failed_def random_choice_def get_or_def empty_scene_def
  example_config_def ascii_def

lemma angry_come_context_eq:
  "angry_come_context =
     \<lparr>original_text = [0x8BA8, 0x538C, 0x2C, 0x8FC7, 0x6765], ctx_keywords = [],
      possible_commands = [command_value COME], possible_emotions = [emotion_value ANGRY],
      context_type = ascii ''command'', context_confidence = 8 / 10,
      scene = None, has_obstacles = None, is_safe = None\<rparr>"
proof -
  have k: "extract_keywords [[0x8BA8, 0x538C], [0x2C], [0x8FC7, 0x6765]] = []"
    by (simp add: extract_keywords_def is_valid_word_def vocabulary_defs)
  have c: "get_command_by_keywords [0x8BA8, 0x538C, 0x2C, 0x8FC7, 0x6765] = [COME]"
    by (simp add: get_command_by_keywords_def all_CommandType_def)
  have e: "get_emotion_by_keywords [0x8BA8, 0x538C, 0x2C, 0x8FC7, 0x6765] = [ANGRY]"
    by (simp add: get_emotion_by_keywords_def all_EmotionType_def)
  have t: "analyze_context_type [0x8BA8, 0x538C, 0x2C, 0x8FC7, 0x6765]
             [[0x8BA8, 0x538C], [0x2C], [0x8FC7, 0x6765]]
             [ascii ''v'', ascii ''x'', ascii ''v''] [] [COME] = (ascii ''command'', 8 / 10)"
    by (simp add: analyze_context_type_def request_markers_def request_closings_def ascii_def
        Let_def)
  show ?thesis
    by (simp add: angry_come_context_def ContextAnalyzer_analyze_def k c e t
        combine_scene_info_def)
qed

lemma angry_result_type: "emotion_type angry_result = emotion_value ANGRY"
  by (simp add: angry_result_def angry_come_context_eq emotion_analyzer_defs Let_def)

text \<open>
  C3 fails on the code. The utterance "tao yan, guo lai" makes the emotion analyzer return
  ANGRY, whose value is U+6124 U+6012 (fen nu). The mood check of \<open>_process_command\<close>
  compares with U+5BB3 U+6015 (hai pa, the value of SCARED) and U+751F U+6C14 (sheng qi),
  which is the value of no member of \<open>EmotionType\<close>. So the command, which passes the safety
  gate, is executed and committed.
\<close>

theorem angry_command_executed:
  "emotion_type angry_result = emotion_value ANGRY \<and>
   emotion_value ANGRY = [0x6124, 0x6012] \<and>
   mood_blocklist = [emotion_value SCARED, [0x751F, 0x6C14]] \<and>
   [0x751F, 0x6C14] \<notin> set (map emotion_value all_EmotionType) \<and>
   sa_is_safe (check_command_safety (DecisionMaker_init (Some example_config))
                 (command_value COME) angry_come_context) \<and>
   should_execute
     (fst (make_decision no_random (DecisionMaker_init (Some example_config))
             angry_come_context angry_result)) \<and>
   action_type
     (fst (make_decision no_random (DecisionMaker_init (Some example_config))
             angry_come_context angry_result)) = Some ''move_to_target'' \<and>
   command_history
     (snd (make_decision no_random (DecisionMaker_init (Some example_config))
             angry_come_context angry_result)) = [command_value COME]"
  by (simp add: angry_result_type angry_come_context_eq make_decision_def process_command_def
      select_best_command_result_def no_random_def decision_maker_defs all_EmotionType_def
      Let_def)

section \<open>Bounds on the intent confidence and the safety score\<close>

text \<open>The safety score of every assessment lies between 0 and 1.\<close>

lemma check_command_safety_score_bounds:
  "0 \<le> sa_score (check_command_safety dm c ctx) \<and>
   sa_score (check_command_safety dm c ctx) \<le> 1"
proof -
  have ratio: "real (length (filter P xs)) / real (length xs) \<le> 1" for P and xs :: "pystr list"
    by (cases "xs = []") (simp_all add: divide_le_eq_1)
  show ?thesis
    using ratio
    by (auto simp: check_command_safety_def unsafe_def Let_def split: sum.splits option.splits)
qed

lemma max_item_ge: "\<forall>y \<in> set (x # xs). snd y \<le> snd (max_item x xs)"
proof (induction xs arbitrary: x)
  case Nil
  show ?case by simp
next
  case (Cons a xs)
  from Cons.IH [of "if snd x < snd a then a else x"] show ?case
    by (auto split: if_splits)
qed

text \<open>The intent confidence is at least the default score of \<open>chat\<close>.\<close>

lemma analyze_context_type_lower_bound:
  "1 / 10 \<le> snd (analyze_context_type text words pos_tags kws cmds)"
  unfolding analyze_context_type_def Let_def
  by (rule order_trans [OF _ max_item_ge [rule_format, of "(ascii ''chat'', 0.1)"]]) simp_all

text \<open>
  C2 fails on the code for the intent confidence. \<open>_analyze_context_type\<close> returns the
  winning score as it is: 0.6 for a matched command and 0.1 for each of five verbs make
  1.1.
\<close>

theorem intent_confidence_exceeds_one:
  "context_type five_verbs_context = ascii ''command'' \<and>
   possible_commands five_verbs_context = [command_value COME] \<and>
   context_confidence five_verbs_context = 11 / 10 \<and>
   1 < context_confidence five_verbs_context"
proof -
  have k: "extract_keywords [[0x8FC7, 0x6765], [0x5750, 0x4E0B], [0x5403, 0x996D],
             [0x559D, 0x6C34], [0x7761, 0x89C9]] = []"
    by (simp add: extract_keywords_def is_valid_word_def vocabulary_defs)
  have c: "get_command_by_keywords
             [0x8FC7, 0x6765, 0x5750, 0x4E0B, 0x5403, 0x996D, 0x559D, 0x6C34, 0x7761, 0x89C9]
             = [COME]"
    by (simp add: get_command_by_keywords_def all_CommandType_def)
  have t: "analyze_context_type
             [0x8FC7, 0x6765, 0x5750, 0x4E0B, 0x5403, 0x996D, 0x559D, 0x6C34, 0x7761, 0x89C9]
             [[0x8FC7, 0x6765], [0x5750, 0x4E0B], [0x5403, 0x996D], [0x559D, 0x6C34],
              [0x7761, 0x89C9]]
             [ascii ''v'', ascii ''v'', ascii ''v'', ascii ''v'', ascii ''v''] [] [COME]
             = (ascii ''command'', 11 / 10)"
    by (simp add: analyze_context_type_def request_markers_def request_closings_def ascii_def
        Let_def)
  show ?thesis
    by (simp add: five_verbs_context_def ContextAnalyzer_analyze_def k c t
        combine_scene_info_def)
qed

section \<open>Parameter ranges\<close>

text \<open>Speech speed and volume are clamped into their configured ranges.\<close>

lemma clamp_range_in_range:
  "range_ok ranges \<Longrightarrow> clamp_range ranges v = Inr w \<Longrightarrow> in_range ranges w"
  by (auto simp: range_ok_def clamp_range_def in_range_def split: list.splits)

lemma adjust_params_clamped:
  assumes "adjust_params ea ps ctx conf = Inr adjusted"
    and "ea_config ea = Some c" and "cfg_emotion c = Some em"
  shows "(\<exists>x. clamp_range (get_or (speech_speed_range em) [0.8, 1.3]) x
                 = Inr (ep_speech_speed adjusted)) \<and>
         (\<exists>y. clamp_range (get_or (volume_range em) [0.8, 1.2]) y
                 = Inr (ep_volume adjusted))"
  using assms
  by (auto simp: adjust_params_def Let_def split: sum.splits)

lemma adjust_params_speed_volume_in_range:
  assumes "adjust_params ea ps ctx conf = Inr adjusted"
    and "ea_config ea = Some c" and "cfg_emotion c = Some em"
    and "range_ok (get_or (speech_speed_range em) [0.8, 1.3])"
    and "range_ok (get_or (volume_range em) [0.8, 1.2])"
  shows "in_range (get_or (speech_speed_range em) [0.8, 1.3]) (ep_speech_speed adjusted) \<and>
         in_range (get_or (volume_range em) [0.8, 1.2]) (ep_volume adjusted)"
  using adjust_params_clamped [OF assms(1,2,3)] clamp_range_in_range [OF assms(4)]
    clamp_range_in_range [OF assms(5)]
  by blast

lemma example_sad_context_analyzed:
  "ContextAnalyzer_analyze (Some example_config)
     (Some [([0x6211], ascii ''r''), ([0x5F88], ascii ''d''), ([0x96BE, 0x8FC7], ascii ''a'')])
     [0x6211, 0x5F88, 0x96BE, 0x8FC7] None = example_sad_context"
proof -
  have k: "extract_keywords [[0x6211], [0x5F88], [0x96BE, 0x8FC7]] = []"
    by (simp add: extract_keywords_def is_valid_word_def vocabulary_defs)
  have c: "get_command_by_keywords [0x6211, 0x5F88, 0x96BE, 0x8FC7] = []"
    by (simp add: get_command_by_keywords_def all_CommandType_def)
  have e: "get_emotion_by_keywords [0x6211, 0x5F88, 0x96BE, 0x8FC7] = [SAD]"
    by (simp add: get_emotion_by_keywords_def all_EmotionType_def)
  have t: "analyze_context_type [0x6211, 0x5F88, 0x96BE, 0x8FC7]
             [[0x6211], [0x5F88], [0x96BE, 0x8FC7]]
             [ascii ''r'', ascii ''d'', ascii ''a''] [] [] = (ascii ''chat'', 1 / 10)"
    by (simp add: analyze_context_type_def request_markers_def request_closings_def ascii_def
        Let_def)
  show ?thesis
    by (simp add: example_sad_context_def ContextAnalyzer_analyze_def k c e t
        combine_scene_info_def)
qed

text \<open>
  C5 fails on the code for the pitch. \<open>_adjust_params\<close> clamps the speech speed and the
  volume and returns the pitch as blended: with the pitch range configured as [1.0, 1.2],
  the utterance "wo hen nan guo" selects SAD (base pitch 0.9) with confidence 1/80, and the
  returned pitch 0.99875 is below the configured minimum 1.0.
\<close>

theorem pitch_outside_configured_range:
  "map_option pitch_range (cfg_emotion narrow_pitch_config) = Some (Some [1, 12 / 10]) \<and>
   emotion_type (fst (EmotionAnalyzer_analyze 0 (EmotionAnalyzer_init (Some narrow_pitch_config))
                        example_sad_context)) = emotion_value SAD \<and>
   confidence (fst (EmotionAnalyzer_analyze 0 (EmotionAnalyzer_init (Some narrow_pitch_config))
                      example_sad_context)) = 1 / 80 \<and>
   ep_pitch (params (fst (EmotionAnalyzer_analyze 0
                            (EmotionAnalyzer_init (Some narrow_pitch_config))
                            example_sad_context))) = 799 / 800 \<and>
   \<not> in_range [1, 12 / 10]
       (ep_pitch (params (fst (EmotionAnalyzer_analyze 0
                                 (EmotionAnalyzer_init (Some narrow_pitch_config))
                                 example_sad_context))))"
  by (simp add: narrow_pitch_config_def example_sad_context_def emotion_analyzer_defs
      in_range_def Let_def)

section \<open>Failure of the emotion analysis\<close>

text \<open>
  C4, as the code has it. When the scoring raises, \<open>analyze\<close> returns the default emotion
  CALM (not the current emotion of the session), the table parameters of CALM, the history
  of the session and confidence 0.5, and leaves the analyzer unmodified. When the parameter
  adjustment raises, it returns CALM, the parameters of CALM and confidence 0.5 with the
  history the analyzer then has.
\<close>

theorem analyze_failure_result:
  "(isl (recognize_emotion r ea ctx) \<longrightarrow>
      EmotionAnalyzer_analyze r ea ctx
        = (\<lparr>emotion_type = emotion_value CALM, params = EMOTION_PARAMS CALM,
            history = map emotion_value (emotion_history ea), confidence = 1 / 2\<rparr>, ea)) \<and>
   (recognize_emotion r' ea' ctx' = Inr (e, c) \<and>
    isl (adjust_params (update_emotion_state ea' e) (get_emotion_params e) ctx' c) \<longrightarrow>
      fst (EmotionAnalyzer_analyze r' ea' ctx')
        = \<lparr>emotion_type = emotion_value CALM, params = EMOTION_PARAMS CALM,
           history = map emotion_value
                       (emotion_history (snd (EmotionAnalyzer_analyze r' ea' ctx'))),
           confidence = 1 / 2\<rparr>)"
  by (auto simp: EmotionAnalyzer_analyze_def analyze_failed_def get_emotion_params_def Let_def
      isl_def)

text \<open>
  The claim as written fails: the current emotion of the session is HAPPY, the scoring
  raises on a candidate that is no emotion, and the result carries CALM.
\<close>

theorem analyze_failure_counterexample:
  "isl (recognize_emotion 0 happy_analyzer unknown_emotion_context) \<and>
   current_emotion happy_analyzer = HAPPY \<and>
   emotion_type (fst (EmotionAnalyzer_analyze 0 happy_analyzer unknown_emotion_context))
     = emotion_value CALM \<and>
   emotion_value CALM \<noteq> emotion_value (current_emotion happy_analyzer)"
  by (simp add: happy_analyzer_def unknown_emotion_context_def example_sad_context_def
      EmotionAnalyzer_analyze_def recognize_emotion_def EmotionType_of_def all_EmotionType_def
      analyze_failed_def)

theorem analyze_failure_result_witness:
  "EmotionAnalyzer_analyze 0 happy_analyzer unknown_emotion_context
     = (\<lparr>emotion_type = emotion_value CALM, params = EMOTION_PARAMS CALM,
         history = [emotion_value HAPPY], confidence = 1 / 2\<rparr>, happy_analyzer) \<and>
   emotion_type (fst (EmotionAnalyzer_analyze 0 (EmotionAnalyzer_init (Some short_range_config))
                        example_sad_context)) = emotion_value CALM"
proof -
  have a: "isl (recognize_emotion 0 happy_analyzer unknown_emotion_context)"
    by (simp add: happy_analyzer_def unknown_emotion_context_def example_sad_context_def
        recognize_emotion_def EmotionType_of_def all_EmotionType_def)
  have h: "map emotion_value (emotion_history happy_analyzer) = [emotion_value HAPPY]"
    by (simp add: happy_analyzer_def)
  have b: "recognize_emotion 0 (EmotionAnalyzer_init (Some short_range_config))
             example_sad_context = Inr (SAD, 1 / 80)"
    by (simp add: short_range_config_def example_sad_context_def emotion_analyzer_defs Let_def)
  have c: "isl (adjust_params
                  (update_emotion_state (EmotionAnalyzer_init (Some short_range_config)) SAD)
                  (get_emotion_params SAD) example_sad_context (1 / 80))"
    by (simp add: short_range_config_def example_sad_context_def emotion_analyzer_defs Let_def)
  from analyze_failure_result [of 0 happy_analyzer unknown_emotion_context
      0 "EmotionAnalyzer_init (Some short_range_config)" example_sad_context SAD "1 / 80"]
    a b c h
  show ?thesis by simp
qed

text \<open>The analyzer of the counterexample is the one a new analyzer becomes on a context
  whose candidate is HAPPY.\<close>

lemma happy_analyzer_reached:
  "snd (EmotionAnalyzer_analyze 0 fresh_analyzer
          (example_sad_context\<lparr>possible_emotions := [emotion_value HAPPY]\<rparr>))
     = happy_analyzer"
  by (simp add: happy_analyzer_def fresh_analyzer_def example_sad_context_def
      emotion_analyzer_defs Let_def)

section \<open>Scene flags of the context\<close>

lemma obstacles_safe_iff:
  "Malformed \<notin> set obs \<Longrightarrow> obstacles_safe m obs = (\<not> list_ex (below_minimum m) obs)"
  by (induction m obs rule: obstacles_safe.induct) (auto simp: below_minimum_def)

lemma check_safety_iff:
  "Malformed \<notin> set obs \<Longrightarrow>
   check_safety cfg cmds obs =
     (\<not> (cmds \<noteq> [] \<and>
         (\<exists>m. configured_min_distance cfg = Some m \<and> list_ex (below_minimum m) obs)))"
  by (cases obs)
    (auto simp: check_safety_def configured_min_distance_def obstacles_safe_iff
      split: option.splits)

text \<open>
  C8, as the code has it. For an \<open>analyze\<close> call with a scene (the tokenizer not raising),
  \<open>has_obstacles\<close> of the context, read with its default \<open>False\<close>, says that the scene's
  obstacle list is non-empty; and with well-formed obstacle entries \<open>is_safe\<close>, read with
  its default \<open>True\<close>, is false exactly when at least one command candidate was matched, a
  minimum obstacle distance is configured, and some obstacle has a distance below it. Both
  keys are set when the scene dictionary is not empty.
\<close>

theorem scene_flags:
  "get_or (has_obstacles (ContextAnalyzer_analyze cfg (Some tokens) text (Some sc))) False
     = (get_or (obstacles sc) [] \<noteq> []) \<and>
   (Malformed \<notin> set (get_or (obstacles sc) []) \<longrightarrow>
      get_or (is_safe (ContextAnalyzer_analyze cfg (Some tokens) text (Some sc))) True
        = (\<not> (get_command_by_keywords text \<noteq> [] \<and>
              (\<exists>m. configured_min_distance cfg = Some m \<and>
                   list_ex (below_minimum m) (get_or (obstacles sc) []))))) \<and>
   (scene_truthy sc \<longrightarrow>
      has_obstacles (ContextAnalyzer_analyze cfg (Some tokens) text (Some sc)) \<noteq> None \<and>
      is_safe (ContextAnalyzer_analyze cfg (Some tokens) text (Some sc)) \<noteq> None)"
proof -
  obtain ctype conf where t:
    "analyze_context_type text (map fst tokens) (map snd tokens)
       (extract_keywords (map fst tokens)) (get_command_by_keywords text) = (ctype, conf)"
    by (cases "analyze_context_type text (map fst tokens) (map snd tokens)
       (extract_keywords (map fst tokens)) (get_command_by_keywords text)")
  define ctx0 where "ctx0 =
     \<lparr>original_text = text, ctx_keywords = extract_keywords (map fst tokens),
      possible_commands = map command_value (get_command_by_keywords text),
      possible_emotions = map emotion_value (get_emotion_by_keywords text),
      context_type = ctype, context_confidence = conf,
      scene = None, has_obstacles = None, is_safe = None\<rparr>"
  have a: "ContextAnalyzer_analyze cfg (Some tokens) text (Some sc)
             = combine_scene_info cfg ctx0 (Some sc)"
    by (simp add: ContextAnalyzer_analyze_def Let_def t ctx0_def)
  have pc: "(possible_commands ctx0 \<noteq> []) = (get_command_by_keywords text \<noteq> [])"
    by (simp add: ctx0_def)
  have none: "has_obstacles ctx0 = None" "is_safe ctx0 = None"
    by (simp_all add: ctx0_def)
  show ?thesis
  proof (cases "scene_truthy sc")
    case False
    then have "obstacles sc = None" by (simp add: scene_truthy_def empty_scene_def)
    moreover have "combine_scene_info cfg ctx0 (Some sc) = ctx0"
      using False by (simp add: combine_scene_info_def)
    ultimately show ?thesis
      using False none by (simp add: a get_or_def)
  next
    case True
    show ?thesis
    proof (cases "obstacles sc")
      case None
      with True show ?thesis
        by (simp add: a combine_scene_info_def get_or_def)
    next
      case (Some obs)
      with True check_safety_iff [of obs cfg "possible_commands ctx0"] pc show ?thesis
        by (auto simp: a combine_scene_info_def get_or_def)
    qed
  qed
qed

lemma hello_obstacle_context_eq:
  "hello_obstacle_context =
     \<lparr>original_text = [0x4F60, 0x597D], ctx_keywords = [[0x4F60, 0x597D]],
      possible_commands = [], possible_emotions = [emotion_value HAPPY],
      context_type = ascii ''greeting'', context_confidence = 6 / 10,
      scene = Some close_obstacle_scene, has_obstacles = Some True, is_safe = Some True\<rparr>"
proof -
  have k: "extract_keywords [[0x4F60, 0x597D]] = [[0x4F60, 0x597D]]"
    by (simp add: extract_keywords_def is_valid_word_def vocabulary_defs)
  have c: "get_command_by_keywords [0x4F60, 0x597D] = []"
    by (simp add: get_command_by_keywords_def all_CommandType_def)
  have e: "get_emotion_by_keywords [0x4F60, 0x597D] = [HAPPY]"
    by (simp add: get_emotion_by_keywords_def all_EmotionType_def)
  have t: "analyze_context_type [0x4F60, 0x597D] [[0x4F60, 0x597D]] [ascii ''l'']
             [[0x4F60, 0x597D]] [] = (ascii ''greeting'', 6 / 10)"
    by (simp add: analyze_context_type_def request_markers_def request_closings_def
        question_words_def greeting_words_def ascii_def Let_def)
  have s: "scene_truthy close_obstacle_scene"
    by (simp add: scene_truthy_def close_obstacle_scene_def empty_scene_def)
  have o: "obstacles close_obstacle_scene = Some [Obstacle (Some 0.3)]"
    by (simp add: close_obstacle_scene_def)
  show ?thesis
    by (simp add: hello_obstacle_context_def ContextAnalyzer_analyze_def k c e t
        combine_scene_info_def s o check_safety_def)
qed

text \<open>
  The claim as written fails: the scene of the greeting "ni hao" has an obstacle at 0.3,
  below the configured minimum 1.0, and the context is safe, because no command candidate
  was matched.
\<close>

theorem scene_flags_counterexample:
  "obstacles close_obstacle_scene = Some [Obstacle (Some (3 / 10))] \<and>
   configured_min_distance (Some example_config) = Some 1 \<and>
   list_ex (below_minimum 1) [Obstacle (Some (3 / 10))] \<and>
   possible_commands hello_obstacle_context = [] \<and>
   is_safe hello_obstacle_context = Some True"
  by (simp add: hello_obstacle_context_eq close_obstacle_scene_def
      configured_min_distance_def example_config_def below_minimum_def)

theorem scene_flags_witness:
  "has_obstacles run_obstacle_context = Some True \<and>
   is_safe run_obstacle_context = Some False \<and>
   get_command_by_keywords [0x5FEB, 0x8DD1] = [RUN] \<and>
   list_ex (below_minimum 1) (get_or (obstacles close_obstacle_scene) [])"
proof -
  have m: "Malformed \<notin> set (get_or (obstacles close_obstacle_scene) [])"
    by (simp add: close_obstacle_scene_def get_or_def)
  have s: "scene_truthy close_obstacle_scene"
    by (simp add: scene_truthy_def close_obstacle_scene_def empty_scene_def)
  have c: "get_command_by_keywords [0x5FEB, 0x8DD1] = [RUN]"
    by (simp add: get_command_by_keywords_def all_CommandType_def)
  have b: "list_ex (below_minimum 1) (get_or (obstacles close_obstacle_scene) [])"
    by (simp add: close_obstacle_scene_def get_or_def below_minimum_def)
  from scene_flags [of "Some example_config" "[([0x5FEB, 0x8DD1], ascii ''v'')]"
      "[0x5FEB, 0x8DD1]" close_obstacle_scene] m s c b
  show ?thesis
    by (simp add: run_obstacle_context_eq)
qed


section \<open>First in, first out\<close>

lemma drop_evicted:
  "drop (length (drop (length xs - n) xs @ ys) - n) (drop (length xs - n) xs @ ys)
     = drop (length (xs @ ys) - n) (xs @ ys)"
proof (cases "length xs \<le> n")
  case True
  then show ?thesis by simp
next
  case False
  then have k: "length (drop (length xs - n) xs) = n" by simp
  have "drop (length (drop (length xs - n) xs @ ys) - n) (drop (length xs - n) xs @ ys)
          = drop (length ys) (drop (length xs - n) xs @ ys)"
    by (simp only: length_append k) simp
  also have "\<dots> = drop (length ys) (drop (length xs - n) (xs @ ys))"
    by simp
  also have "\<dots> = drop (length xs - n + length ys) (xs @ ys)"
    by (simp only: drop_drop add.commute)
  also have "length xs - n + length ys = length (xs @ ys) - n"
    using False by simp
  finally show ?thesis .
qed

lemma update_command_history_evicts:
  assumes "length (command_history dm) \<le> max_history_size dm"
  shows "command_history (update_command_history dm c)
           = drop (length (command_history dm @ [c]) - max_history_size dm)
               (command_history dm @ [c])"
  using evict_oldest [OF assms, of c] by (simp add: update_command_history_def Let_def)

text \<open>A run of commits keeps the most recent entries of the old history followed by the
  committed commands.\<close>

lemma foldl_update_command_history:
  "length (command_history dm) \<le> max_history_size dm \<Longrightarrow>
   command_history (foldl update_command_history dm cs)
     = drop (length (command_history dm @ cs) - max_history_size dm) (command_history dm @ cs)"
proof (induction cs arbitrary: dm)
  case Nil
  then show ?case by simp
next
  case (Cons c cs)
  let ?n = "max_history_size dm"
  let ?h = "command_history dm"
  have len: "length (command_history (update_command_history dm c))
               \<le> max_history_size (update_command_history dm c)"
    using update_command_history_len [OF Cons.prems, of c]
    by (simp add: update_command_history_size)
  have "command_history (foldl update_command_history dm (c # cs))
          = command_history (foldl update_command_history (update_command_history dm c) cs)"
    by simp
  also have "\<dots> = drop (length (command_history (update_command_history dm c) @ cs) - ?n)
                      (command_history (update_command_history dm c) @ cs)"
    using Cons.IH [OF len] by (simp add: update_command_history_size)
  also have "\<dots> = drop (length (drop (length (?h @ [c]) - ?n) (?h @ [c]) @ cs) - ?n)
                      (drop (length (?h @ [c]) - ?n) (?h @ [c]) @ cs)"
    by (simp only: update_command_history_evicts [OF Cons.prems])
  also have "\<dots> = drop (length ((?h @ [c]) @ cs) - ?n) ((?h @ [c]) @ cs)"
    by (rule drop_evicted)
  finally show ?case by simp
qed

text \<open>What one call of \<open>analyze\<close> does to the analyzer.\<close>

lemma analyze_effect:
  "snd (EmotionAnalyzer_analyze r ea ctx)
     = (case recognize_emotion r ea ctx of
          Inl err \<Rightarrow> ea
        | Inr (e, c) \<Rightarrow> update_emotion_state ea e)"
  by (auto simp: EmotionAnalyzer_analyze_def Let_def split: sum.splits prod.splits)

text \<open>What one call of \<open>make_decision\<close> does to the decision maker.\<close>

lemma make_decision_effect:
  "snd (make_decision rnd dm ctx emotion)
     = foldl update_command_history dm
         (if context_type ctx = ascii ''command'' \<and> possible_commands ctx \<noteq> []
          then committed_commands (possible_commands ctx)
                 (fst (process_commands rnd 0 dm (possible_commands ctx) ctx emotion))
          else [])"
  using process_commands_commits [of rnd 0 dm "possible_commands ctx" ctx emotion]
  by (auto simp: make_decision_def split: prod.splits)

text \<open>
  C6. In the session reached from a new one by any sequence of calls to
  \<open>EmotionAnalyzer.analyze\<close> and \<open>DecisionMaker.make_decision\<close>, the emotion history holds
  at most \<open>history_size = 5\<close> entries and the command history at most
  \<open>max_history_size = 10\<close>. Eviction is first in, first out, call by call. One more call of
  \<open>analyze\<close> leaves the emotion history as it is when the scoring raises, and otherwise
  makes it the five most recent entries, in order, of the old history followed by the
  recognized emotion, which becomes the current emotion. One more call of \<open>make_decision\<close>
  makes the command history the ten most recent entries, in order, of the old history
  followed by the commands committed by the call (none unless the intent is \<open>command\<close>). So
  at capacity each new entry pushes out exactly the oldest one. The same holds of the two
  update operations on their own.
\<close>

theorem history_bounded_fifo:
  "(let s = run_session (new_session loaded) calls;
        eh = emotion_history (analyzer s);
        ch = command_history (decider s);
        committed =
          (if context_type dctx = ascii ''command'' \<and> possible_commands dctx \<noteq> []
           then committed_commands (possible_commands dctx)
                  (fst (process_commands rnd 0 (decider s) (possible_commands dctx) dctx
                          emotion))
           else [])
    in length eh \<le> 5 \<and> history_size (analyzer s) = 5 \<and>
       length ch \<le> 10 \<and> max_history_size (decider s) = 10 \<and>
       emotion_history (snd (EmotionAnalyzer_analyze r (analyzer s) actx))
         = (case recognize_emotion r (analyzer s) actx of
              Inl err \<Rightarrow> eh
            | Inr (e, conf) \<Rightarrow> drop (length (eh @ [e]) - 5) (eh @ [e])) \<and>
       current_emotion (snd (EmotionAnalyzer_analyze r (analyzer s) actx))
         = (case recognize_emotion r (analyzer s) actx of
              Inl err \<Rightarrow> current_emotion (analyzer s)
            | Inr (e, conf) \<Rightarrow> e) \<and>
       command_history (snd (make_decision rnd (decider s) dctx emotion))
         = drop (length (ch @ committed) - 10) (ch @ committed) \<and>
       emotion_history (update_emotion_state (analyzer s) e)
         = drop (length (eh @ [e]) - 5) (eh @ [e]) \<and>
       command_history (update_command_history (decider s) c)
         = drop (length (ch @ [c]) - 10) (ch @ [c]))"
proof -
  define s where "s = run_session (new_session loaded) calls"
  define committed where "committed =
          (if context_type dctx = ascii ''command'' \<and> possible_commands dctx \<noteq> []
           then committed_commands (possible_commands dctx)
                  (fst (process_commands rnd 0 (decider s) (possible_commands dctx) dctx
                          emotion))
           else [])"
  have "session_bounded s"
    unfolding s_def by (rule run_session_bounded [OF new_session_bounded])
  then have bounds:
    "length (emotion_history (analyzer s)) \<le> 5" "history_size (analyzer s) = 5"
    "length (command_history (decider s)) \<le> 10" "max_history_size (decider s) = 10"
    by (simp_all add: session_bounded_def emotion_bounded_def command_bounded_def)
  have e: "emotion_history (update_emotion_state (analyzer s) e)
      = drop (length (emotion_history (analyzer s) @ [e]) - 5) (emotion_history (analyzer s) @ [e])"
    for e
    using evict_oldest [OF bounds(1), of e] bounds(2)
    by (simp add: update_emotion_state_def Let_def)
  have c: "command_history (update_command_history (decider s) c)
      = drop (length (command_history (decider s) @ [c]) - 10) (command_history (decider s) @ [c])"
    using evict_oldest [OF bounds(3), of c] bounds(4)
    by (simp add: update_command_history_def Let_def)
  have cur: "current_emotion (update_emotion_state (analyzer s) e) = e" for e
    by (simp add: update_emotion_state_def Let_def)
  have a1: "emotion_history (snd (EmotionAnalyzer_analyze r (analyzer s) actx))
         = (case recognize_emotion r (analyzer s) actx of
              Inl err \<Rightarrow> emotion_history (analyzer s)
            | Inr (e, conf) \<Rightarrow>
                drop (length (emotion_history (analyzer s) @ [e]) - 5)
                  (emotion_history (analyzer s) @ [e]))"
    unfolding analyze_effect using e by (auto split: sum.splits)
  have a2: "current_emotion (snd (EmotionAnalyzer_analyze r (analyzer s) actx))
         = (case recognize_emotion r (analyzer s) actx of
              Inl err \<Rightarrow> current_emotion (analyzer s)
            | Inr (e, conf) \<Rightarrow> e)"
    unfolding analyze_effect using cur by (auto split: sum.splits)
  have le: "length (command_history (decider s)) \<le> max_history_size (decider s)"
    using bounds(3,4) by simp
  have d: "command_history (snd (make_decision rnd (decider s) dctx emotion))
         = drop (length (command_history (decider s) @ committed) - 10)
             (command_history (decider s) @ committed)"
    unfolding make_decision_effect committed_def [symmetric]
    using foldl_update_command_history [OF le, of committed] bounds(4) by simp
  from bounds a1 a2 d e c show ?thesis
    unfolding s_def [symmetric] committed_def [symmetric] Let_def by simp
qed

lemma happy_step:
  "length h < 5 \<Longrightarrow>
   snd (EmotionAnalyzer_analyze 0
          \<lparr>current_emotion = cur, emotion_history = h, history_size = 5,
           ea_config = Some example_config\<rparr> happy_context)
     = \<lparr>current_emotion = HAPPY, emotion_history = h @ [HAPPY], history_size = 5,
        ea_config = Some example_config\<rparr>"
proof -
  assume a: "length h < 5"
  have p: "possible_emotions happy_context = emotion_value HAPPY # []"
    by (simp add: happy_context_def)
  have "\<exists>c. recognize_emotion 0
               \<lparr>current_emotion = cur, emotion_history = h, history_size = 5,
                ea_config = Some example_config\<rparr> happy_context = Inr (HAPPY, c)"
    unfolding recognize_emotion_candidate [OF p]
    by (simp add: EmotionType_of_def all_EmotionType_def calculate_keyword_score_def
        example_config_def Let_def)
  then show ?thesis using a
    by (auto simp: analyze_effect update_emotion_state_def Let_def)
qed

lemma busy_analyzer:
  "analyzer (run_session (new_session (Some example_config)) busy_calls)
     = \<lparr>current_emotion = HAPPY, emotion_history = [HAPPY, HAPPY, HAPPY, HAPPY, HAPPY],
        history_size = 5, ea_config = Some example_config\<rparr>"
  by (simp add: busy_calls_def run_session_def new_session_def EmotionAnalyzer_init_def
      happy_step)

lemma busy_decider:
  "decider (run_session (new_session (Some example_config)) busy_calls)
     = (DecisionMaker_init (Some example_config))
         \<lparr>command_history :=
            [command_value TURN, command_value STOP, command_value TURN, command_value STOP,
             command_value TURN, command_value STOP, command_value TURN, command_value STOP,
             command_value TURN, command_value STOP]\<rparr>"
  by (simp add: busy_calls_def run_session_def new_session_def turn_stop_context_eq
      make_decision_def process_command_def select_best_command_result_def calm_result_def
      no_random_def decision_maker_defs Let_def)

text \<open>On the full histories, a sad utterance and a dance command each push out the oldest
  entry.\<close>

theorem history_bounded_fifo_witness:
  "emotion_history (analyzer (run_session (new_session (Some example_config)) busy_calls))
     = [HAPPY, HAPPY, HAPPY, HAPPY, HAPPY] \<and>
   emotion_history
     (snd (EmotionAnalyzer_analyze 0
             (analyzer (run_session (new_session (Some example_config)) busy_calls))
             example_sad_context))
     = [HAPPY, HAPPY, HAPPY, HAPPY, SAD] \<and>
   command_history (decider (run_session (new_session (Some example_config)) busy_calls))
     = [command_value TURN, command_value STOP, command_value TURN, command_value STOP,
        command_value TURN, command_value STOP, command_value TURN, command_value STOP,
        command_value TURN, command_value STOP] \<and>
   command_history
     (snd (make_decision no_random
             (decider (run_session (new_session (Some example_config)) busy_calls))
             dance_context calm_result))
     = [command_value STOP, command_value TURN, command_value STOP, command_value TURN,
        command_value STOP, command_value TURN, command_value STOP, command_value TURN,
        command_value STOP, command_value DANCE]"
proof -
  let ?s = "run_session (new_session (Some example_config)) busy_calls"
  have p: "possible_emotions example_sad_context = emotion_value SAD # []"
    by (simp add: example_sad_context_def)
  have r: "\<exists>c. recognize_emotion 0 (analyzer ?s) example_sad_context = Inr (SAD, c)"
    unfolding recognize_emotion_candidate [OF p] busy_analyzer
    by (simp add: EmotionType_of_def all_EmotionType_def calculate_keyword_score_def
        example_config_def example_sad_context_def Let_def)
  have d: "committed_commands (possible_commands dance_context)
             (fst (process_commands no_random 0 (decider ?s) (possible_commands dance_context)
                     dance_context calm_result)) = [command_value DANCE]"
    unfolding busy_decider
    by (simp add: dance_context_eq committed_commands_def process_command_def calm_result_def
        no_random_def decision_maker_defs Let_def)
  have t: "context_type dance_context = ascii ''command'' \<and> possible_commands dance_context \<noteq> []"
    by (simp add: dance_context_eq)
  have eh: "emotion_history (analyzer ?s) = [HAPPY, HAPPY, HAPPY, HAPPY, HAPPY]"
    by (simp add: busy_analyzer)
  have ch: "command_history (decider ?s)
     = [command_value TURN, command_value STOP, command_value TURN, command_value STOP,
        command_value TURN, command_value STOP, command_value TURN, command_value STOP,
        command_value TURN, command_value STOP]"
    by (simp add: busy_decider)
  from r obtain c where rc: "recognize_emotion 0 (analyzer ?s) example_sad_context = Inr (SAD, c)" ..
  from history_bounded_fifo [of "Some example_config" busy_calls dance_context no_random
      calm_result 0 example_sad_context]
  show ?thesis
    unfolding Let_def rc d eh ch using t by simp
qed

end
